theory Spec2Isabelle
  imports Complex_Main "HOL-Library.Word" "HOL-Library.Sublist"
begin

unbundle bit_operations_syntax

section \<open>Python values used by the provisioner\<close>

text \<open>
  The Python sources under \<^verbatim>\<open>backend/app\<close> are embedded function by function.
  A Python \<^verbatim>\<open>str\<close> is a \<^typ>\<open>string\<close>; each \<^typ>\<open>char\<close> is one code point below 256
  (the strings CPython stores with one byte per character), a Python \<^verbatim>\<open>int\<close> is an
  \<^typ>\<open>int\<close>. An exception is either an \<^verbatim>\<open>OSError\<close> with its error number and the file
  name it was raised for, or any other exception with the text of \<^verbatim>\<open>str(e)\<close>.
\<close>

subsection \<open>The builtins \<^verbatim>\<open>str(int)\<close> and \<^verbatim>\<open>repr(str)\<close>\<close>

definition digit_char :: "nat \<Rightarrow> char" where
  "digit_char d = ''0123456789'' ! d"

function str_nat :: "nat \<Rightarrow> string" where
  "str_nat n = (if n < 10 then [digit_char n]
                else str_nat (n div 10) @ [digit_char (n mod 10)])"
  by pat_completeness auto
termination
  by (relation "measure id") auto

declare str_nat.simps [simp del]

definition str_int :: "int \<Rightarrow> string" where
  "str_int i = (if i < 0 then CHR ''-'' # str_nat (nat (- i)) else str_nat (nat i))"

text \<open>
  \<^verbatim>\<open>repr\<close> of a string: double quotes when the string has an apostrophe and no double
  quote, apostrophes otherwise; the quote and the backslash are escaped, tab, line feed
  and carriage return are written \<^verbatim>\<open>\t\<close>, \<^verbatim>\<open>\n\<close>, \<^verbatim>\<open>\r\<close>, and every other character that
  is not printable as \<^verbatim>\<open>\xhh\<close>.
\<close>

definition hex_digit :: "nat \<Rightarrow> char" where
  "hex_digit d = ''0123456789abcdef'' ! d"

definition isprintable :: "char \<Rightarrow> bool" where
  "isprintable c \<longleftrightarrow>
     (32 \<le> (of_char c :: nat) \<and> (of_char c :: nat) < 127) \<or>
     (161 \<le> (of_char c :: nat) \<and> (of_char c :: nat) \<noteq> 173)"

definition repr_char :: "char \<Rightarrow> char \<Rightarrow> string" where
  "repr_char quote c =
     (if c = quote \<or> c = CHR 0x5C then [CHR 0x5C, c]
      else if c = CHR 0x09 then [CHR 0x5C, CHR ''t'']
      else if c = CHR 0x0A then [CHR 0x5C, CHR ''n'']
      else if c = CHR 0x0D then [CHR 0x5C, CHR ''r'']
      else if isprintable c then [c]
      else [CHR 0x5C, CHR ''x'', hex_digit ((of_char c :: nat) div 16),
            hex_digit ((of_char c :: nat) mod 16)])"

definition repr :: "string \<Rightarrow> string" where
  "repr s =
     (let quote = (if CHR 0x27 \<in> set s \<and> CHR 0x22 \<notin> set s then CHR 0x22 else CHR 0x27)
      in quote # concat (map (repr_char quote) s) @ [quote])"

subsection \<open>Exceptions\<close>

datatype exn = Exception string | OSError nat string

abbreviation (input) EEXIST :: nat where "EEXIST \<equiv> 17"
abbreviation (input) ENOENT :: nat where "ENOENT \<equiv> 2"
abbreviation (input) EBUSY :: nat where "EBUSY \<equiv> 16"
abbreviation (input) ENOTDIR :: nat where "ENOTDIR \<equiv> 20"
abbreviation (input) EISDIR :: nat where "EISDIR \<equiv> 21"
abbreviation (input) EINVAL :: nat where "EINVAL \<equiv> 22"
abbreviation (input) ENOTEMPTY :: nat where "ENOTEMPTY \<equiv> 39"

definition strerror :: "nat \<Rightarrow> string" where
  "strerror errno =
     (if errno = ENOENT then ''No such file or directory''
      else if errno = 13 then ''Permission denied''
      else if errno = EBUSY then ''Device or resource busy''
      else if errno = EEXIST then ''File exists''
      else if errno = ENOTDIR then ''Not a directory''
      else if errno = EISDIR then ''Is a directory''
      else if errno = EINVAL then ''Invalid argument''
      else if errno = 28 then ''No space left on device''
      else if errno = 36 then ''File name too long''
      else if errno = ENOTEMPTY then ''Directory not empty''
      else ''Unknown error '' @ str_nat errno)"

fun str_exn :: "exn \<Rightarrow> string" where
  "str_exn (Exception msg) = msg"
| "str_exn (OSError errno filename) =
     ''[Errno '' @ str_nat errno @ ''] '' @ strerror errno @ '': '' @ repr filename"

subsection \<open>The builtin \<^verbatim>\<open>int(str)\<close>\<close>

text \<open>
  \<^verbatim>\<open>int(s)\<close> in base 10, as CPython's \<^verbatim>\<open>PyLong_FromUnicodeObject\<close> and
  \<^verbatim>\<open>PyLong_FromString\<close> read a string: code points from 127 on are first mapped to a
  blank when they are Unicode white space (0x85 and 0xA0 below 256) and to \<^verbatim>\<open>?\<close>
  otherwise; then leading white space, one optional sign, decimal digits with single
  underscores between them, and trailing white space. Anything else, an empty digit
  sequence, or more digits than \<^verbatim>\<open>sys.get_int_max_str_digits()\<close> raises
  \<^verbatim>\<open>ValueError\<close>, which is \<open>None\<close> here.
\<close>

definition Py_ISSPACE :: "char \<Rightarrow> bool" where
  "Py_ISSPACE c \<longleftrightarrow> (9 \<le> (of_char c :: nat) \<and> (of_char c :: nat) \<le> 13) \<or> (of_char c :: nat) = 32"

definition Py_ISDIGIT :: "char \<Rightarrow> bool" where
  "Py_ISDIGIT c \<longleftrightarrow> 48 \<le> (of_char c :: nat) \<and> (of_char c :: nat) \<le> 57"

definition digit_value :: "char \<Rightarrow> nat" where
  "digit_value c = of_char c - 48"

definition transform_decimal_and_space :: "char \<Rightarrow> char" where
  "transform_decimal_and_space c =
     (if (of_char c :: nat) < 127 then c
      else if (of_char c :: nat) = 133 \<or> (of_char c :: nat) = 160 then CHR '' ''
      else CHR ''?'')"

text \<open>
  The digit scan of \<^verbatim>\<open>long_from_string_base\<close>: \<open>prev\<close> is the character read last; two
  underscores in a row or an underscore at the end of the digits are an error.
\<close>

fun scan_digits :: "char \<Rightarrow> string \<Rightarrow> (string \<times> string) option" where
  "scan_digits prev [] = (if prev = CHR ''_'' then None else Some ([], []))"
| "scan_digits prev (c # cs) =
     (if Py_ISDIGIT c then
        (case scan_digits c cs of None \<Rightarrow> None | Some (ds, rest) \<Rightarrow> Some (c # ds, rest))
      else if c = CHR ''_'' then
        (if prev = CHR ''_'' then None else scan_digits c cs)
      else if prev = CHR ''_'' then None
      else Some ([], c # cs))"

definition decimal_value :: "string \<Rightarrow> nat" where
  "decimal_value ds = foldl (\<lambda>a c. 10 * a + digit_value c) 0 ds"

definition int_max_str_digits :: nat where
  "int_max_str_digits = 4300"

definition py_int :: "string \<Rightarrow> int option" where
  "py_int s =
     (let t = dropWhile Py_ISSPACE (map transform_decimal_and_space s);
          (negative, u) = (case t of
                             c # cs \<Rightarrow> if c = CHR ''+'' then (False, cs)
                                       else if c = CHR ''-'' then (True, cs)
                                       else (False, t)
                           | [] \<Rightarrow> (False, t))
      in case u of
           [] \<Rightarrow> None
         | c # cs \<Rightarrow>
             if c = CHR ''_'' then None
             else (case scan_digits (CHR 0x00) u of
                     None \<Rightarrow> None
                   | Some (ds, rest) \<Rightarrow>
                       if ds = [] then None
                       else if int_max_str_digits < length ds then None
                       else if dropWhile Py_ISSPACE rest \<noteq> [] then None
                       else Some (if negative then - int (decimal_value ds)
                                  else int (decimal_value ds))))"

subsection \<open>The builtin \<^verbatim>\<open>hash(str)\<close>\<close>

text \<open>
  CPython hashes a string with SipHash-1-3 over its bytes, keyed by the two 64-bit words
  of \<^verbatim>\<open>_Py_HashSecret\<close>. The interpreter draws the secret at start-up (at random, unless
  \<^verbatim>\<open>PYTHONHASHSEED\<close> fixes it), so it is a parameter of every function that hashes.
\<close>

type_synonym u64 = "64 word"

record hash_secret =
  k0 :: u64
  k1 :: u64

definition ROTATE :: "u64 \<Rightarrow> nat \<Rightarrow> u64" where
  "ROTATE x b = (push_bit b x) OR (drop_bit (64 - b) x)"

type_synonym sipstate = "u64 \<times> u64 \<times> u64 \<times> u64"

definition SINGLE_ROUND :: "sipstate \<Rightarrow> sipstate" where
  "SINGLE_ROUND s =
     (case s of (v0, v1, v2, v3) \<Rightarrow>
        let a0 = v0 + v1; c2 = v2 + v3;
            b1 = ROTATE v1 13 XOR a0; d3 = ROTATE v3 16 XOR c2;
            a0' = ROTATE a0 32;
            a2 = c2 + b1; c0 = a0' + d3;
            b1' = ROTATE b1 17 XOR a2; d3' = ROTATE d3 21 XOR c0;
            a2' = ROTATE a2 32
        in (c0, b1', a2', d3'))"

definition le64 :: "char list \<Rightarrow> u64" where
  "le64 bs = foldr (\<lambda>c acc. of_char c OR push_bit 8 acc) bs 0"

definition sip_block :: "u64 \<Rightarrow> sipstate \<Rightarrow> sipstate" where
  "sip_block mi s =
     (case s of (v0, v1, v2, v3) \<Rightarrow>
        (case SINGLE_ROUND (v0, v1, v2, v3 XOR mi) of
           (w0, w1, w2, w3) \<Rightarrow> (w0 XOR mi, w1, w2, w3)))"

fun sip_blocks :: "nat \<Rightarrow> char list \<Rightarrow> sipstate \<Rightarrow> sipstate \<times> char list" where
  "sip_blocks 0 src s = (s, src)"
| "sip_blocks (Suc n) src s = sip_blocks n (drop 8 src) (sip_block (le64 (take 8 src)) s)"

definition siphash13 :: "u64 \<Rightarrow> u64 \<Rightarrow> char list \<Rightarrow> u64" where
  "siphash13 key0 key1 src =
     (let b = push_bit 56 (of_nat (length src) :: u64);
          s0 = (key0 XOR 0x736f6d6570736575, key1 XOR 0x646f72616e646f6d,
                key0 XOR 0x6c7967656e657261, key1 XOR 0x7465646279746573);
          (s1, tail) = sip_blocks (length src div 8) src s0;
          b' = b OR le64 tail
      in case sip_block b' s1 of
           (v0, v1, v2, v3) \<Rightarrow>
             (case SINGLE_ROUND (SINGLE_ROUND (SINGLE_ROUND (v0, v1, v2 XOR 0xff, v3))) of
                (w0, w1, w2, w3) \<Rightarrow> (w0 XOR w1) XOR (w2 XOR w3)))"

definition py_hash :: "hash_secret \<Rightarrow> string \<Rightarrow> int" where
  "py_hash secret s =
     (if s = [] then 0
      else let x = sint (siphash13 (k0 secret) (k1 secret) s)
           in if x = - 1 then - 2 else x)"

section \<open>Request Normalizer (\<^verbatim>\<open>jobs.py\<close>)\<close>

text \<open>
  \<^verbatim>\<open>normalize_request_id\<close>: \<^verbatim>\<open>int(device_id)\<close>, and when that raises,
  \<^verbatim>\<open>abs(hash(device_id)) % (10 ** 8)\<close>.
\<close>

definition normalize_request_id :: "hash_secret \<Rightarrow> string \<Rightarrow> int" where
  "normalize_request_id secret device_id =
     (case py_int device_id of
        Some n \<Rightarrow> n
      | None \<Rightarrow> \<bar>py_hash secret device_id\<bar> mod (10 ^ 8))"


section \<open>Environment of a worker process\<close>

text \<open>
  Everything the code reaches outside its own variables is a field of \<open>world\<close>: the two
  tables of the status store with their key sequences, the cache, the file system, the
  clock and the list of external commands started so far. What the environment answers
  is scripted: \<open>db_faults\<close>, \<open>redis_faults\<close> and \<open>fs_faults\<close> say for each coming
  transaction, cache command or file operation whether it raises (\<open>Some e\<close>) or goes
  through (\<open>None\<close>, also when the script is used up), and \<open>processes\<close> lists what each
  coming subprocess does. Constraint violations of the database (an over-long string, an
  integer out of the column's range) are among the faults \<open>db_faults\<close> stands for.

  Time stamps and durations are exact rationals in seconds; \<^verbatim>\<open>total_seconds()\<close> is the
  difference of two readings of the clock, without the rounding of a float.

  A path is the string the code passes to the operating system. The file system maps a
  location, the list of names from the root down to an entry, to what is there: a file
  with its text or a directory; \<open>cwd\<close> is the working directory of the process. There
  are no symbolic links. Limits on the length of names and paths, permissions and a full
  disk are among the faults \<open>fs_faults\<close> stands for.
\<close>

type_synonym seconds = rat
type_synonym path = string
type_synonym location = "string list"

record request_status_log =
  log_id :: nat
  request_id :: int
  user_id :: string
  status :: string
  duration_seconds :: "seconds option"
  error_message :: "string option"
  created_at :: seconds
  updated_at :: seconds

record request_resource =
  resource_id :: nat
  resource_log_id :: nat
  resource_type :: string
  resource_name :: string
  resource_id_value :: string
  resource_created_at :: seconds

datatype node = File string | Dir

datatype proc_outcome = Exited int string string seconds | Spawn_failed exn

record world =
  request_status_logs :: "request_status_log list"
  log_id_seq :: nat
  request_resources :: "request_resource list"
  resource_id_seq :: nat
  redis :: "string \<rightharpoonup> string"
  files :: "location \<rightharpoonup> node"
  cwd :: location
  utcnow :: seconds
  invoked :: "(string list \<times> path) list"
  db_faults :: "exn option list"
  redis_faults :: "exn option list"
  fs_faults :: "exn option list"
  processes :: "proc_outcome list"

record settings =
  AWS_REGION :: string
  TF_STATE_BUCKET :: "string option"
  DYNAMO_TABLE :: "string option"
  TERRAFORM_ROOT :: path

subsection \<open>Strings: \<^verbatim>\<open>join\<close>, \<^verbatim>\<open>split\<close>, \<^verbatim>\<open>strip\<close>, \<^verbatim>\<open>textwrap.dedent\<close>\<close>

text \<open>An f-string renders \<^verbatim>\<open>None\<close> (an unset environment variable) as the word.\<close>

fun format_opt :: "string option \<Rightarrow> string" where
  "format_opt None = ''None''"
| "format_opt (Some s) = s"

fun join :: "string \<Rightarrow> string list \<Rightarrow> string" where
  "join sep [] = []"
| "join sep [x] = x"
| "join sep (x # y # ys) = x @ sep @ join sep (y # ys)"

fun split :: "char \<Rightarrow> string \<Rightarrow> string list" where
  "split sep [] = [[]]"
| "split sep (c # cs) =
     (if c = sep then [] # split sep cs
      else (case split sep cs of
              l # ls \<Rightarrow> (c # l) # ls
            | [] \<Rightarrow> [[c]]))"

text \<open>\<^verbatim>\<open>str.strip()\<close> removes Unicode white space at both ends.\<close>

definition isspace :: "char \<Rightarrow> bool" where
  "isspace c \<longleftrightarrow>
     (9 \<le> (of_char c :: nat) \<and> (of_char c :: nat) \<le> 13) \<or>
     (28 \<le> (of_char c :: nat) \<and> (of_char c :: nat) \<le> 32) \<or>
     (of_char c :: nat) = 133 \<or> (of_char c :: nat) = 160"

definition strip :: "string \<Rightarrow> string" where
  "strip s = rev (dropWhile isspace (rev (dropWhile isspace s)))"

text \<open>
  \<^verbatim>\<open>textwrap.dedent\<close>: lines of blanks and tabs only become empty; the margin is the
  longest run of blanks and tabs that starts every other line; it is cut from the start
  of each line that has it.
\<close>

definition blank_or_tab :: "char \<Rightarrow> bool" where
  "blank_or_tab c \<longleftrightarrow> c = CHR '' '' \<or> c = CHR 0x09"

fun common_prefix :: "string \<Rightarrow> string \<Rightarrow> string" where
  "common_prefix (x # xs) (y # ys) = (if x = y then x # common_prefix xs ys else [])"
| "common_prefix _ _ = []"

definition next_margin :: "string option \<Rightarrow> string \<Rightarrow> string option" where
  "next_margin margin indent =
     (case margin of
        None \<Rightarrow> Some indent
      | Some m \<Rightarrow>
          if prefix m indent then Some m
          else if prefix indent m then Some indent
          else Some (common_prefix m indent))"

definition cut_margin :: "string \<Rightarrow> string \<Rightarrow> string" where
  "cut_margin m l = (if prefix m l then drop (length m) l else l)"

definition dedent :: "string \<Rightarrow> string" where
  "dedent text =
     (let lines = map (\<lambda>l. if list_all blank_or_tab l then [] else l) (split CHR 0x0A text);
          indents = map (takeWhile blank_or_tab) (filter (\<lambda>l. l \<noteq> []) lines);
          margin = foldl next_margin None indents
      in case margin of
           None \<Rightarrow> join ''\<newline>'' lines
         | Some m \<Rightarrow> if m = [] then join ''\<newline>'' lines
                      else join ''\<newline>'' (map (cut_margin m) lines))"


section \<open>Status Store (\<^verbatim>\<open>db_utils.py\<close>)\<close>

text \<open>
  \<^verbatim>\<open>cache_job_status\<close>: the status goes to the cache under \<^verbatim>\<open>job:<id>\<close>; an exception of
  the cache client is swallowed.
\<close>

definition cache_job_status :: "string \<Rightarrow> string \<Rightarrow> world \<Rightarrow> world" where
  "cache_job_status job_id st w =
     (case redis_faults w of
        Some e # rest \<Rightarrow> w\<lparr>redis_faults := rest\<rparr>
      | _ \<Rightarrow> w\<lparr>redis := (redis w)(''job:'' @ job_id \<mapsto> st),
               redis_faults := tl (redis_faults w)\<rparr>)"

text \<open>
  \<^verbatim>\<open>log_request\<close>: one transaction, then the cache. \<^verbatim>\<open>existing.scalar()\<close> is the key of the
  first row found for the request id, or \<^verbatim>\<open>None\<close>; \<^verbatim>\<open>if log_id:\<close> takes the update branch
  for a key that is neither \<^verbatim>\<open>None\<close> nor 0. The update sets the four columns on every row
  with that key; the insert appends a row whose key is the next value of the sequence.
  A transaction that raises is rolled back and nothing after it runs.
\<close>

definition scalar :: "'a list \<Rightarrow> 'a option" where
  "scalar rows = (case rows of [] \<Rightarrow> None | x # _ \<Rightarrow> Some x)"

definition update_log ::
  "nat \<Rightarrow> string \<Rightarrow> seconds option \<Rightarrow> string option \<Rightarrow> seconds \<Rightarrow>
   request_status_log \<Rightarrow> request_status_log" where
  "update_log key st dur err now r =
     (if log_id r = key
      then r\<lparr>status := st, duration_seconds := dur, error_message := err, updated_at := now\<rparr>
      else r)"

definition insert_log ::
  "int \<Rightarrow> string \<Rightarrow> string \<Rightarrow> seconds option \<Rightarrow> string option \<Rightarrow> seconds option \<Rightarrow>
   world \<Rightarrow> nat \<times> world" where
  "insert_log rid uid st dur err created w =
     (Suc (log_id_seq w),
      w\<lparr>request_status_logs := request_status_logs w @
           [\<lparr>log_id = Suc (log_id_seq w), request_id = rid, user_id = uid,
             status = st, duration_seconds = dur, error_message = err,
             created_at = (case created of None \<Rightarrow> utcnow w | Some t \<Rightarrow> t),
             updated_at = utcnow w\<rparr>],
         log_id_seq := Suc (log_id_seq w)\<rparr>)"

definition log_request ::
  "int \<Rightarrow> string \<Rightarrow> string \<Rightarrow> seconds option \<Rightarrow> string option \<Rightarrow> seconds option \<Rightarrow>
   world \<Rightarrow> (exn + nat) \<times> world" where
  "log_request rid uid st dur err created w =
     (case db_faults w of
        Some e # rest \<Rightarrow> (Inl e, w\<lparr>db_faults := rest\<rparr>)
      | _ \<Rightarrow>
          let w0 = w\<lparr>db_faults := tl (db_faults w)\<rparr>;
              existing = scalar (map log_id (filter (\<lambda>r. request_id r = rid)
                                               (request_status_logs w0)));
              (key, w1) =
                (case existing of
                   Some k \<Rightarrow>
                     if k \<noteq> 0 then
                       (k, w0\<lparr>request_status_logs :=
                                 map (update_log k st dur err (utcnow w0))
                                     (request_status_logs w0)\<rparr>)
                     else insert_log rid uid st dur err created w0
                 | None \<Rightarrow> insert_log rid uid st dur err created w0)
          in (Inr key, cache_job_status (str_int rid) st w1))"

text \<open>\<^verbatim>\<open>log_resource\<close>: one transaction that inserts one row.\<close>

definition log_resource ::
  "nat \<Rightarrow> string \<Rightarrow> string \<Rightarrow> string \<Rightarrow> world \<Rightarrow> (exn + unit) \<times> world" where
  "log_resource key rtype rname rvalue w =
     (case db_faults w of
        Some e # rest \<Rightarrow> (Inl e, w\<lparr>db_faults := rest\<rparr>)
      | _ \<Rightarrow>
          (Inr (),
           w\<lparr>db_faults := tl (db_faults w),
             request_resources := request_resources w @
               [\<lparr>resource_id = Suc (resource_id_seq w), resource_log_id = key,
                 resource_type = rtype, resource_name = rname, resource_id_value = rvalue,
                 resource_created_at = utcnow w\<rparr>],
             resource_id_seq := Suc (resource_id_seq w)\<rparr>))"

section \<open>Workspace Builder and Process Runner (\<^verbatim>\<open>terraform_utils.py\<close>)\<close>

subsection \<open>File operations\<close>

text \<open>
  The system calls look a path up from the root (or from \<open>cwd\<close> when the path does not
  start with a slash), one name after the other; a name is only looked up in a directory
  that exists, an empty name and \<^verbatim>\<open>.\<close> stay where they are and \<^verbatim>\<open>..\<close> goes to the parent.
  A path with a NUL character is refused by Python with a \<^verbatim>\<open>ValueError\<close> before any
  system call. Each operation that would change the file system then asks the script of
  faults, fails where the state of the file system makes it fail, and takes effect.
\<close>

definition fs_fault :: "world \<Rightarrow> exn option \<times> world" where
  "fs_fault w =
     (case fs_faults w of
        [] \<Rightarrow> (None, w)
      | f # rest \<Rightarrow> (f, w\<lparr>fs_faults := rest\<rparr>))"

definition has_nul :: "path \<Rightarrow> bool" where
  "has_nul p \<longleftrightarrow> CHR 0x00 \<in> set p"

definition step :: "location \<Rightarrow> string \<Rightarrow> location" where
  "step cur c =
     (if c = [] \<or> c = ''.'' then cur else if c = ''..'' then butlast cur else cur @ [c])"

fun namei :: "(location \<rightharpoonup> node) \<Rightarrow> location \<Rightarrow> string list \<Rightarrow> nat + location" where
  "namei f cur [] = Inr cur"
| "namei f cur (c # cs) =
     (case f cur of
        None \<Rightarrow> Inl ENOENT
      | Some (File _) \<Rightarrow> Inl ENOTDIR
      | Some Dir \<Rightarrow> namei f (step cur c) cs)"

definition rstrip_sep :: "path \<Rightarrow> path" where
  "rstrip_sep p = rev (dropWhile (\<lambda>c. c = CHR ''/'') (rev p))"

definition start_of :: "world \<Rightarrow> path \<Rightarrow> location" where
  "start_of w p = (if p \<noteq> [] \<and> hd p = CHR ''/'' then [] else cwd w)"

definition path_lookup :: "world \<Rightarrow> path \<Rightarrow> nat + location" where
  "path_lookup w p =
     (if p = [] then Inl ENOENT
      else namei (files w) (start_of w p) (split CHR ''/'' p))"

text \<open>
  \<^verbatim>\<open>os.path.exists\<close> and \<^verbatim>\<open>os.path.isdir\<close>: \<^verbatim>\<open>os.stat\<close> of the path, with every error
  taken as \<^verbatim>\<open>False\<close>.
\<close>

definition os_path_exists :: "path \<Rightarrow> world \<Rightarrow> bool" where
  "os_path_exists p w \<longleftrightarrow>
     \<not> has_nul p \<and>
     (case path_lookup w p of Inl errno \<Rightarrow> False | Inr l \<Rightarrow> files w l \<noteq> None)"

definition os_path_isdir :: "path \<Rightarrow> world \<Rightarrow> bool" where
  "os_path_isdir p w \<longleftrightarrow>
     \<not> has_nul p \<and>
     (case path_lookup w p of Inl errno \<Rightarrow> False | Inr l \<Rightarrow> files w l = Some Dir)"

text \<open>\<^verbatim>\<open>os.mkdir\<close>: slashes at the end of the path are ignored.\<close>

definition os_mkdir :: "path \<Rightarrow> world \<Rightarrow> (exn + unit) \<times> world" where
  "os_mkdir p w =
     (if has_nul p then (Inl (Exception ''embedded null byte''), w)
      else case fs_fault w of
        (Some e, w1) \<Rightarrow> (Inl e, w1)
      | (None, w1) \<Rightarrow>
          if p \<noteq> [] \<and> rstrip_sep p = [] then (Inl (OSError EEXIST p), w1)
          else (case path_lookup w1 (rstrip_sep p) of
                  Inl errno \<Rightarrow> (Inl (OSError errno p), w1)
                | Inr l \<Rightarrow>
                    (case files w1 l of
                       Some n \<Rightarrow> (Inl (OSError EEXIST p), w1)
                     | None \<Rightarrow> (Inr (), w1\<lparr>files := (files w1)(l \<mapsto> Dir)\<rparr>))))"

text \<open>
  \<^verbatim>\<open>os.rmdir\<close> as \<^verbatim>\<open>shutil.rmtree\<close> calls it last, on the directory it has just emptied
  (the test for emptiness is therefore left out): a path that ends in \<^verbatim>\<open>.\<close> or \<^verbatim>\<open>..\<close> and
  the root are refused.
\<close>

definition os_rmdir :: "path \<Rightarrow> world \<Rightarrow> (exn + unit) \<times> world" where
  "os_rmdir p w =
     (let q = rstrip_sep p
      in if q = [] then (Inl (OSError (if p = [] then ENOENT else EBUSY) p), w)
         else (case namei (files w) (start_of w q) (butlast (split CHR ''/'' q)) of
                 Inl errno \<Rightarrow> (Inl (OSError errno p), w)
               | Inr parent \<Rightarrow>
                   (case files w parent of
                      None \<Rightarrow> (Inl (OSError ENOENT p), w)
                    | Some (File _) \<Rightarrow> (Inl (OSError ENOTDIR p), w)
                    | Some Dir \<Rightarrow>
                        let name = last (split CHR ''/'' q)
                        in if name = ''.'' then (Inl (OSError EINVAL p), w)
                           else if name = ''..'' then (Inl (OSError ENOTEMPTY p), w)
                           else (case files w (parent @ [name]) of
                                   None \<Rightarrow> (Inl (OSError ENOENT p), w)
                                 | Some (File _) \<Rightarrow> (Inl (OSError ENOTDIR p), w)
                                 | Some Dir \<Rightarrow>
                                     (Inr (), w\<lparr>files := (files w)(parent @ [name] := None)\<rparr>)))))"

text \<open>
  \<^verbatim>\<open>shutil.rmtree\<close>: \<^verbatim>\<open>lstat\<close> and open the path, remove everything below the directory
  found, then \<^verbatim>\<open>rmdir\<close> the path.
\<close>

definition shutil_rmtree :: "path \<Rightarrow> world \<Rightarrow> (exn + unit) \<times> world" where
  "shutil_rmtree p w =
     (if has_nul p then (Inl (Exception ''embedded null byte''), w)
      else case fs_fault w of
        (Some e, w1) \<Rightarrow> (Inl e, w1)
      | (None, w1) \<Rightarrow>
          (case path_lookup w1 p of
             Inl errno \<Rightarrow> (Inl (OSError errno p), w1)
           | Inr l \<Rightarrow>
               (case files w1 l of
                  None \<Rightarrow> (Inl (OSError ENOENT p), w1)
                | Some (File _) \<Rightarrow> (Inl (OSError ENOTDIR p), w1)
                | Some Dir \<Rightarrow>
                    os_rmdir p
                      (w1\<lparr>files := (\<lambda>q. if strict_prefix l q then None else files w1 q)\<rparr>))))"

text \<open>
  \<^verbatim>\<open>os.makedirs(name, exist_ok=True)\<close>, with \<^verbatim>\<open>os.path.split\<close>: the directories above the
  last name are made first when the path up to there does not exist; an \<^verbatim>\<open>OSError\<close> of
  \<^verbatim>\<open>mkdir\<close> is dropped when the name is a directory afterwards.
\<close>

definition os_path_split :: "path \<Rightarrow> path \<times> string" where
  "os_path_split p =
     (let tail = rev (takeWhile (\<lambda>c. c \<noteq> CHR ''/'') (rev p));
          head = rev (dropWhile (\<lambda>c. c \<noteq> CHR ''/'') (rev p))
      in (if head \<noteq> [] \<and> \<not> list_all (\<lambda>c. c = CHR ''/'') head then rstrip_sep head else head,
          tail))"

definition makedirs_split :: "path \<Rightarrow> path \<times> string" where
  "makedirs_split name =
     (case os_path_split name of
        (head, tail) \<Rightarrow> if tail = [] then os_path_split head else (head, tail))"

definition mkdir_exist_ok :: "path \<Rightarrow> world \<Rightarrow> (exn + unit) \<times> world" where
  "mkdir_exist_ok name w =
     (case os_mkdir name w of
        (Inr u, w1) \<Rightarrow> (Inr u, w1)
      | (Inl (Exception msg), w1) \<Rightarrow> (Inl (Exception msg), w1)
      | (Inl (OSError errno filename), w1) \<Rightarrow>
          if os_path_isdir name w1 then (Inr (), w1) else (Inl (OSError errno filename), w1))"

definition makedirs_last :: "string \<Rightarrow> path \<Rightarrow> world \<Rightarrow> (exn + unit) \<times> world" where
  "makedirs_last tail name w = (if tail = ''.'' then (Inr (), w) else mkdir_exist_ok name w)"

definition is_FileExistsError :: "exn \<Rightarrow> bool" where
  "is_FileExistsError e = (case e of OSError errno filename \<Rightarrow> errno = EEXIST | _ \<Rightarrow> False)"

function os_makedirs :: "path \<Rightarrow> world \<Rightarrow> (exn + unit) \<times> world" where
  "os_makedirs name w =
     (if fst (makedirs_split name) \<noteq> [] \<and> snd (makedirs_split name) \<noteq> [] \<and>
         \<not> os_path_exists (fst (makedirs_split name)) w
      then (case os_makedirs (fst (makedirs_split name)) w of
              (Inr u, w1) \<Rightarrow> makedirs_last (snd (makedirs_split name)) name w1
            | (Inl e, w1) \<Rightarrow>
                if is_FileExistsError e
                then makedirs_last (snd (makedirs_split name)) name w1
                else (Inl e, w1))
      else mkdir_exist_ok name w)"
  by pat_completeness auto
termination
proof (relation "measure (\<lambda>(name, w). length name)")
  show "wf (measure (\<lambda>(name, w). length name))" by simp
next
  fix name :: path and w :: world
  assume "fst (makedirs_split name) \<noteq> [] \<and> snd (makedirs_split name) \<noteq> [] \<and>
          \<not> os_path_exists (fst (makedirs_split name)) w"
  then have tail: "snd (makedirs_split name) \<noteq> []" by simp
  have len: "\<And>p. length (fst (os_path_split p)) + length (snd (os_path_split p)) \<le> length p"
  proof -
    fix p :: path
    have "length (rstrip_sep (rev (dropWhile (\<lambda>c. c \<noteq> CHR ''/'') (rev p)))) \<le>
          length (dropWhile (\<lambda>c. c \<noteq> CHR ''/'') (rev p))"
      by (simp add: rstrip_sep_def length_dropWhile_le)
    moreover have "length (takeWhile (\<lambda>c. c \<noteq> CHR ''/'') (rev p)) +
                   length (dropWhile (\<lambda>c. c \<noteq> CHR ''/'') (rev p)) = length p"
      by (metis length_append length_rev takeWhile_dropWhile_id)
    ultimately show "length (fst (os_path_split p)) + length (snd (os_path_split p)) \<le> length p"
      by (simp add: os_path_split_def Let_def)
  qed
  have "length (fst (makedirs_split name)) < length name"
  proof (cases "snd (os_path_split name) = []")
    case True
    then have ms: "makedirs_split name = os_path_split (fst (os_path_split name))"
      by (simp add: makedirs_split_def split_def)
    have "length (fst (os_path_split (fst (os_path_split name)))) +
          length (snd (os_path_split (fst (os_path_split name)))) \<le>
          length (fst (os_path_split name))"
      by (rule len)
    moreover have "length (fst (os_path_split name)) \<le> length name"
      using len [of name] by simp
    moreover have "0 < length (snd (os_path_split (fst (os_path_split name))))"
      using tail ms by simp
    ultimately have "length (fst (os_path_split (fst (os_path_split name)))) < length name"
      by linarith
    then show ?thesis by (simp add: ms)
  next
    case False
    then have ms: "makedirs_split name = os_path_split name"
      by (simp add: makedirs_split_def split_def)
    have "0 < length (snd (os_path_split name))" using False by simp
    then have "length (fst (os_path_split name)) < length name"
      using len [of name] by linarith
    then show ?thesis by (simp add: ms)
  qed
  then show "((fst (makedirs_split name), w), (name, w)) \<in> measure (\<lambda>(name, w). length name)"
    by simp
qed

declare os_makedirs.simps [simp del]

text \<open>
  \<^verbatim>\<open>open(path, "w")\<close> and \<^verbatim>\<open>write\<close>: the file is created or emptied and gets the text; a
  path that ends in a slash is refused as a directory.
\<close>

definition write_file :: "path \<Rightarrow> string \<Rightarrow> world \<Rightarrow> (exn + unit) \<times> world" where
  "write_file p content w =
     (if has_nul p then (Inl (Exception ''embedded null byte''), w)
      else case fs_fault w of
        (Some e, w1) \<Rightarrow> (Inl e, w1)
      | (None, w1) \<Rightarrow>
          if p \<noteq> [] \<and> last p = CHR ''/'' then
            (if rstrip_sep p = [] then (Inl (OSError EISDIR p), w1)
             else (case path_lookup w1 (rstrip_sep p) of
                     Inl errno \<Rightarrow> (Inl (OSError errno p), w1)
                   | Inr l \<Rightarrow> (Inl (OSError EISDIR p), w1)))
          else (case path_lookup w1 p of
                  Inl errno \<Rightarrow> (Inl (OSError errno p), w1)
                | Inr l \<Rightarrow>
                    if files w1 l = Some Dir then (Inl (OSError EISDIR p), w1)
                    else (Inr (), w1\<lparr>files := (files w1)(l \<mapsto> File content)\<rparr>)))"

text \<open>\<^verbatim>\<open>os.path.join(a, b)\<close>: an absolute \<open>b\<close> replaces \<open>a\<close>.\<close>

definition os_path_join :: "path \<Rightarrow> string \<Rightarrow> path" where
  "os_path_join a b =
     (if b \<noteq> [] \<and> hd b = CHR ''/'' then b
      else if a = [] \<or> last a = CHR ''/'' then a @ b
      else a @ ''/'' @ b)"

subsection \<open>The generated files\<close>

definition MODULE_PATH :: string where
  "MODULE_PATH = ''/worker/modules/ec2''"

definition main_tf :: "string \<Rightarrow> string \<Rightarrow> string" where
  \<open>main_tf device_id instance_name = dedent (join ''\<newline>''
     ['''',
      ''    module "ec2" {'',
      ''      source        = "'' @ MODULE_PATH @ ''"'',
      ''      ami           = "ami-0c02fb55956c7d316"'',
      ''      instance_type = "t3.micro"'',
      ''      instance_name = "'' @ instance_name @ ''"'',
      ''      device_id     = "'' @ device_id @ ''"'',
      ''    }'',
      ''    ''])\<close>

definition variables_tf :: string where
  \<open>variables_tf = dedent (join ''\<newline>''
     ['''',
      ''    variable "device_id" {'',
      ''      type        = string'',
      ''      description = "Unique device ID"'',
      ''    }'',
      '''',
      ''    variable "instance_name" {'',
      ''      type        = string'',
      ''      description = "EC2 instance name"'',
      ''    }'',
      ''    ''])\<close>

definition outputs_tf :: string where
  \<open>outputs_tf = dedent (join ''\<newline>''
     ['''',
      ''    output "ec2_instance_id" {'',
      ''      value = module.ec2.instance_id'',
      ''    }'',
      '''',
      ''    output "ec2_public_ip" {'',
      ''      value = module.ec2.public_ip'',
      ''    }'',
      ''    ''])\<close>

definition provider_tf :: "settings \<Rightarrow> string \<Rightarrow> string" where
  \<open>provider_tf cfg device_id = dedent (join ''\<newline>''
     ['''',
      ''    terraform {'',
      ''      required_version = ">= 1.1.0"'',
      '''',
      ''      backend "s3" {'',
      ''        bucket         = "'' @ format_opt (TF_STATE_BUCKET cfg) @ ''"'',
      ''        key            = "state/'' @ device_id @ ''.tfstate"'',
      ''        region         = "'' @ AWS_REGION cfg @ ''"'',
      ''        dynamodb_table = "'' @ format_opt (DYNAMO_TABLE cfg) @ ''"'',
      ''        encrypt        = true'',
      ''      }'',
      ''    }'',
      '''',
      ''    provider "aws" {'',
      ''      region = "'' @ AWS_REGION cfg @ ''"'',
      ''    }'',
      ''    ''])\<close>

text \<open>The loop over \<^verbatim>\<open>files.items()\<close>: one file after the other, up to the first error.\<close>

fun write_files :: "path \<Rightarrow> (string \<times> string) list \<Rightarrow> world \<Rightarrow> (exn + unit) \<times> world" where
  "write_files p [] w = (Inr (), w)"
| "write_files p ((filename, content) # others) w =
     (case write_file (os_path_join p filename) (strip content @ ''\<newline>'') w of
        (Inl e, w1) \<Rightarrow> (Inl e, w1)
      | (Inr _, w1) \<Rightarrow> write_files p others w1)"

definition generate_root_terraform_files ::
  "settings \<Rightarrow> string \<Rightarrow> string \<Rightarrow> path \<Rightarrow> world \<Rightarrow> (exn + unit) \<times> world" where
  "generate_root_terraform_files cfg device_id instance_name p w =
     (case (if os_path_exists p w then shutil_rmtree p w else (Inr (), w)) of
        (Inl e, w1) \<Rightarrow> (Inl e, w1)
      | (Inr _, w1) \<Rightarrow>
          (case os_makedirs p w1 of
             (Inl e, w2) \<Rightarrow> (Inl e, w2)
           | (Inr _, w2) \<Rightarrow>
               write_files p
                 [(''main.tf'', main_tf device_id instance_name),
                  (''variables.tf'', variables_tf),
                  (''outputs.tf'', outputs_tf),
                  (''provider.tf'', provider_tf cfg device_id)] w2))"

subsection \<open>Running the external tool\<close>

text \<open>
  \<^verbatim>\<open>_run_cmd\<close>: the command and its directory are recorded in \<open>invoked\<close>; the script says
  whether the process could be started and, if so, its exit code, its two outputs and
  the time it took. A process beyond the end of the script exits with code 0, prints
  nothing and takes no time.
\<close>

definition run_cmd :: "string list \<Rightarrow> path \<Rightarrow> world \<Rightarrow> (exn + int \<times> string \<times> string) \<times> world" where
  "run_cmd cmd dir w =
     (let w0 = w\<lparr>invoked := invoked w @ [(cmd, dir)]\<rparr>
      in case processes w of
           [] \<Rightarrow> (Inr (0, [], []), w0)
         | Spawn_failed e # rest \<Rightarrow> (Inl e, w0\<lparr>processes := rest\<rparr>)
         | Exited rc out err dt # rest \<Rightarrow>
             (Inr (rc, out, err), w0\<lparr>processes := rest, utcnow := utcnow w + dt\<rparr>))"

definition terraform_init :: "string list" where
  "terraform_init = [''terraform'', ''init'', ''-input=false'']"

definition terraform_apply :: "string \<Rightarrow> string \<Rightarrow> string list" where
  "terraform_apply device_id instance_name =
     [''terraform'', ''apply'', ''-auto-approve'', ''-input=false'',
      ''-var'', ''device_id='' @ device_id,
      ''-var'', ''instance_name='' @ instance_name]"

definition terraform_output :: "string list" where
  "terraform_output = [''terraform'', ''output'', ''-json'']"

definition terraform_destroy :: "string \<Rightarrow> string \<Rightarrow> string list" where
  "terraform_destroy device_id instance_name =
     [''terraform'', ''destroy'', ''-auto-approve'', ''-input=false'',
      ''-var'', ''device_id='' @ device_id,
      ''-var'', ''instance_name='' @ instance_name]"

definition run_terraform_commands ::
  "path \<Rightarrow> string \<Rightarrow> string \<Rightarrow> world \<Rightarrow> (exn + bool \<times> string \<times> seconds) \<times> world" where
  "run_terraform_commands p device_id instance_name w =
     (let start = utcnow w
      in case run_cmd terraform_init p w of
           (Inl e, w1) \<Rightarrow> (Inl e, w1)
         | (Inr (ret, out, err), w1) \<Rightarrow>
             let logs = [out, err]
             in if ret \<noteq> 0 then (Inr (False, join ''\<newline>'' logs, utcnow w1 - start), w1)
                else
                  (case run_cmd (terraform_apply device_id instance_name) p w1 of
                     (Inl e, w2) \<Rightarrow> (Inl e, w2)
                   | (Inr (ret, out, err), w2) \<Rightarrow>
                       let logs = logs @ [out, err];
                           duration = utcnow w2 - start
                       in if ret \<noteq> 0 then (Inr (False, join ''\<newline>'' logs, duration), w2)
                          else
                            (case run_cmd terraform_output p w2 of
                               (Inl e, w3) \<Rightarrow> (Inr (True, join ''\<newline>'' logs, duration), w3)
                             | (Inr (ret2, out2, err2), w3) \<Rightarrow>
                                 (Inr (True, join ''\<newline>'' (logs @ [out2, err2]), duration),
                                  w3))))"

definition destroy_terraform_resources ::
  "path \<Rightarrow> string \<Rightarrow> string \<Rightarrow> world \<Rightarrow> (exn + bool \<times> string \<times> seconds) \<times> world" where
  "destroy_terraform_resources p device_id instance_name w =
     (let start = utcnow w
      in case run_cmd (terraform_destroy device_id instance_name) p w of
           (Inl e, w1) \<Rightarrow> (Inl e, w1)
         | (Inr (ret, out, err), w1) \<Rightarrow>
             (Inr (ret = 0, join ''\<newline>'' [out, err], utcnow w1 - start), w1))"

section \<open>Job Orchestrator (\<^verbatim>\<open>jobs.py\<close>)\<close>

record job_result =
  success :: bool
  "output" :: string
  duration :: seconds

text \<open>The body of the \<^verbatim>\<open>try\<close> of \<^verbatim>\<open>create_server_job\<close>.\<close>

definition create_steps ::
  "settings \<Rightarrow> int \<Rightarrow> nat \<Rightarrow> path \<Rightarrow> string \<Rightarrow> string \<Rightarrow> string \<Rightarrow> world \<Rightarrow>
   (exn + job_result) \<times> world" where
  "create_steps cfg rid key device_path device_id instance_name user w =
     (case generate_root_terraform_files cfg device_id instance_name device_path w of
        (Inl e, w1) \<Rightarrow> (Inl e, w1)
      | (Inr _, w1) \<Rightarrow>
          (case run_terraform_commands device_path device_id instance_name w1 of
             (Inl e, w2) \<Rightarrow> (Inl e, w2)
           | (Inr (ok, out, dur), w2) \<Rightarrow>
               (case log_request rid user (if ok then ''success'' else ''failed'') (Some dur)
                       (if ok then None else Some out) None w2 of
                  (Inl e, w3) \<Rightarrow> (Inl e, w3)
                | (Inr _, w3) \<Rightarrow>
                    if ok then
                      (case log_resource key ''EC2'' instance_name device_id w3 of
                         (Inl e, w4) \<Rightarrow> (Inl e, w4)
                       | (Inr _, w4) \<Rightarrow>
                           (Inr \<lparr>success = ok, output = out, duration = dur\<rparr>, w4))
                    else (Inr \<lparr>success = ok, output = out, duration = dur\<rparr>, w3))))"

definition create_server_job ::
  "hash_secret \<Rightarrow> settings \<Rightarrow> string \<Rightarrow> string \<Rightarrow> string \<Rightarrow> world \<Rightarrow>
   (exn + job_result) \<times> world" where
  "create_server_job secret cfg device_id instance_name user w =
     (let rid = normalize_request_id secret device_id;
          device_path = os_path_join (TERRAFORM_ROOT cfg) device_id
      in case log_request rid user ''create_started'' None None None w of
           (Inl e, w1) \<Rightarrow> (Inl e, w1)
         | (Inr key, w1) \<Rightarrow>
             (case create_steps cfg rid key device_path device_id instance_name user w1 of
                (Inr r, w2) \<Rightarrow> (Inr r, w2)
              | (Inl e, w2) \<Rightarrow>
                  let error_text = ''Unhandled error: '' @ str_exn e
                  in (case log_request rid user ''error'' None (Some error_text) None w2 of
                        (Inl e', w3) \<Rightarrow> (Inl e', w3)
                      | (Inr _, w3) \<Rightarrow>
                          (Inr \<lparr>success = False, output = error_text, duration = 0\<rparr>, w3))))"

text \<open>The body of the \<^verbatim>\<open>try\<close> of \<^verbatim>\<open>destroy_server_job\<close>.\<close>

definition destroy_steps ::
  "int \<Rightarrow> path \<Rightarrow> string \<Rightarrow> string \<Rightarrow> string \<Rightarrow> world \<Rightarrow> (exn + job_result) \<times> world" where
  "destroy_steps rid device_path device_id instance_name user w =
     (case destroy_terraform_resources device_path device_id instance_name w of
        (Inl e, w1) \<Rightarrow> (Inl e, w1)
      | (Inr (ok, out, dur), w1) \<Rightarrow>
          (case log_request rid user (if ok then ''destroyed'' else ''destroy_failed'') (Some dur)
                  (if ok then None else Some out) None w1 of
             (Inl e, w2) \<Rightarrow> (Inl e, w2)
           | (Inr _, w2) \<Rightarrow> (Inr \<lparr>success = ok, output = out, duration = dur\<rparr>, w2)))"

definition destroy_server_job ::
  "hash_secret \<Rightarrow> settings \<Rightarrow> string \<Rightarrow> string \<Rightarrow> string \<Rightarrow> world \<Rightarrow>
   (exn + job_result) \<times> world" where
  "destroy_server_job secret cfg device_id instance_name user w =
     (let rid = normalize_request_id secret device_id;
          device_path = os_path_join (TERRAFORM_ROOT cfg) device_id
      in case log_request rid user ''destroy_started'' None None None w of
           (Inl e, w1) \<Rightarrow> (Inl e, w1)
         | (Inr _, w1) \<Rightarrow>
             (case destroy_steps rid device_path device_id instance_name user w1 of
                (Inr r, w2) \<Rightarrow> (Inr r, w2)
              | (Inl e, w2) \<Rightarrow>
                  let error_text = ''Destroy crashed: '' @ str_exn e
                  in (case log_request rid user ''destroy_error'' None (Some error_text) None w2 of
                        (Inl e', w3) \<Rightarrow> (Inl e', w3)
                      | (Inr _, w3) \<Rightarrow>
                          (Inr \<lparr>success = False, output = error_text, duration = 0\<rparr>, w3))))"

section \<open>Notions used in the statements\<close>

text \<open>
  What the create pipeline reports in a run of \<^verbatim>\<open>create_server_job\<close>: the first status
  write, the workspace build and \<^verbatim>\<open>run_terraform_commands\<close> as the flow runs them, giving
  the success flag returned, the key of the status row and the world at that moment, or
  \<open>None\<close> when the flow does not get that far. \<open>no_db_fault k w\<close>: none of the next
  \<open>k\<close> transactions raises.
\<close>

definition create_pipeline_report ::
  "hash_secret \<Rightarrow> settings \<Rightarrow> string \<Rightarrow> string \<Rightarrow> string \<Rightarrow> world \<Rightarrow>
   (bool \<times> nat \<times> world) option" where
  "create_pipeline_report secret cfg device_id instance_name user w =
     (let rid = normalize_request_id secret device_id;
          device_path = os_path_join (TERRAFORM_ROOT cfg) device_id
      in case log_request rid user ''create_started'' None None None w of
           (Inl e, w1) \<Rightarrow> None
         | (Inr key, w1) \<Rightarrow>
             (case generate_root_terraform_files cfg device_id instance_name device_path w1 of
                (Inl e, w2) \<Rightarrow> None
              | (Inr _, w2) \<Rightarrow>
                  (case run_terraform_commands device_path device_id instance_name w2 of
                     (Inl e, w3) \<Rightarrow> None
                   | (Inr (ok, out, dur), w3) \<Rightarrow> Some (ok, key, w3))))"

definition no_db_fault :: "nat \<Rightarrow> world \<Rightarrow> bool" where
  "no_db_fault k w = list_all (\<lambda>f. f = None) (take k (db_faults w))"

section \<open>Sample environments\<close>

text \<open>
  Concrete inputs at which the theorems below are evaluated: a fresh worker with empty
  tables and an empty root directory, and two hash secrets, the one of
  \<^verbatim>\<open>PYTHONHASHSEED=0\<close> and the one of \<^verbatim>\<open>PYTHONHASHSEED=1\<close>; then worlds with a
  status row on record, with a failing \<^verbatim>\<open>init\<close>, with a workspace left over from an
  earlier run, with database faults and with a full disk.
\<close>

definition fresh_world :: world where
  "fresh_world =
     \<lparr>request_status_logs = [], log_id_seq = 0, request_resources = [], resource_id_seq = 0,
      redis = Map.empty, files = [[] \<mapsto> Dir], cwd = [], utcnow = 100, invoked = [],
      db_faults = [], redis_faults = [], fs_faults = [], processes = []\<rparr>"

definition sample_settings :: settings where
  "sample_settings =
     \<lparr>AWS_REGION = ''us-east-1'', TF_STATE_BUCKET = Some ''tf-state'', DYNAMO_TABLE = None,
      TERRAFORM_ROOT = ''/worker/app/terraform_templates''\<rparr>"

definition seed0 :: hash_secret where
  "seed0 = \<lparr>k0 = 0, k1 = 0\<rparr>"

definition seed1 :: hash_secret where
  "seed1 = \<lparr>k0 = 0xaed66ce184be2329, k1 = 0xebe9bbf1f1499052\<rparr>"

definition recorded_world :: world where
  "recorded_world =
     fresh_world\<lparr>request_status_logs :=
                  [\<lparr>log_id = 1, request_id = 42, user_id = ''alice'', status = ''failed'',
                    duration_seconds = Some 32, error_message = Some ''init failed'',
                    created_at = 60, updated_at = 92\<rparr>],
                log_id_seq := 1\<rparr>"

definition init_fails_world :: world where
  "init_fails_world =
     fresh_world\<lparr>processes := [Exited 1 ''Initializing the backend...'' ''Error: no bucket'' 2,
                               Exited 0 ''Apply complete!'' [] 30]\<rparr>"

definition db_down_world :: world where
  "db_down_world = fresh_world\<lparr>db_faults := [Some (Exception ''connection refused'')]\<rparr>"

definition stale_world :: world where
  "stale_world =
     fresh_world\<lparr>files :=
       [[] \<mapsto> Dir, [''worker''] \<mapsto> Dir, [''worker'', ''app''] \<mapsto> Dir,
        [''worker'', ''app'', ''terraform_templates''] \<mapsto> Dir,
        [''worker'', ''app'', ''terraform_templates'', ''42''] \<mapsto> Dir,
        [''worker'', ''app'', ''terraform_templates'', ''42'', ''terraform.tfstate''] \<mapsto>
          File ''{}'',
        [''worker'', ''app'', ''terraform_templates'', ''42'', ''.terraform''] \<mapsto> Dir,
        [''worker'', ''app'', ''terraform_templates'', ''42'', ''.terraform'', ''lock''] \<mapsto>
          File []]\<rparr>"

definition happy_world :: world where
  "happy_world =
     fresh_world\<lparr>processes := [Exited 0 ''Terraform has been initialized'' [] 2,
                               Exited 0 ''Apply complete!'' [] 30,
                               Exited 0 ''{}'' [] 1]\<rparr>"

definition db_blip_world :: world where
  "db_blip_world = happy_world\<lparr>db_faults := [None, Some (Exception ''connection lost'')]\<rparr>"

definition db_lost_world :: world where
  "db_lost_world =
     happy_world\<lparr>db_faults := [None, Some (Exception ''connection lost''),
                                Some (Exception ''connection lost'')]\<rparr>"

definition build_fails_world :: world where
  "build_fails_world =
     happy_world\<lparr>fs_faults := [Some (Exception ''[Errno 28] No space left on device'')]\<rparr>"

section \<open>Properties\<close>

subsection \<open>Request Normalizer\<close>

lemma digit_not_space: "Py_ISDIGIT c \<Longrightarrow> \<not> Py_ISSPACE c"
  by (auto simp: Py_ISDIGIT_def Py_ISSPACE_def)

lemma digit_transform: "Py_ISDIGIT c \<Longrightarrow> transform_decimal_and_space c = c"
  by (simp add: Py_ISDIGIT_def transform_decimal_and_space_def)

lemma digit_not_punct:
  "Py_ISDIGIT c \<Longrightarrow> c \<noteq> CHR ''_'' \<and> c \<noteq> CHR ''+'' \<and> c \<noteq> CHR ''-''"
  by (auto simp: Py_ISDIGIT_def)

lemma scan_digits_all:
  "list_all Py_ISDIGIT ds \<Longrightarrow> prev \<noteq> CHR ''_'' \<Longrightarrow> scan_digits prev ds = Some (ds, [])"
proof (induction ds arbitrary: prev)
  case Nil
  then show ?case by simp
next
  case (Cons c cs)
  then have "c \<noteq> CHR ''_''" by (simp add: digit_not_punct)
  with Cons show ?case by simp
qed

lemma py_int_digits:
  assumes "ds \<noteq> []" and "list_all Py_ISDIGIT ds" and "length ds \<le> int_max_str_digits"
  shows "py_int ds = Some (int (decimal_value ds))"
    and "py_int (CHR ''-'' # ds) = Some (- int (decimal_value ds))"
    and "py_int (CHR ''+'' # ds) = Some (int (decimal_value ds))"
proof -
  obtain c cs where ds: "ds = c # cs" using assms(1) by (cases ds) auto
  have c: "Py_ISDIGIT c" using assms(2) ds by simp
  have m: "map transform_decimal_and_space ds = ds"
    using assms(2) by (induction ds) (simp_all add: digit_transform)
  have s: "scan_digits (CHR 0x00) ds = Some (ds, [])"
    using assms(2) by (simp add: scan_digits_all)
  have d: "dropWhile Py_ISSPACE ds = ds"
    using c ds by (simp add: digit_not_space)
  have sgn: "transform_decimal_and_space (CHR ''-'') = CHR ''-''"
    "transform_decimal_and_space (CHR ''+'') = CHR ''+''"
    "\<not> Py_ISSPACE (CHR ''-'')" "\<not> Py_ISSPACE (CHR ''+'')"
    by (simp_all add: transform_decimal_and_space_def Py_ISSPACE_def)
  show "py_int ds = Some (int (decimal_value ds))"
    using assms(3) c digit_not_punct[OF c] s m d
    by (simp add: py_int_def ds[symmetric]) (simp add: ds)
  show "py_int (CHR ''-'' # ds) = Some (- int (decimal_value ds))"
    using assms(3) c digit_not_punct[OF c] s m sgn
    by (simp add: py_int_def) (simp add: ds)
  show "py_int (CHR ''+'' # ds) = Some (int (decimal_value ds))"
    using assms(3) c digit_not_punct[OF c] s m sgn
    by (simp add: py_int_def) (simp add: ds)
qed

lemma normalize_fallback_range:
  "py_int d = None \<Longrightarrow>
     0 \<le> normalize_request_id secret d \<and> normalize_request_id secret d < 10 ^ 8"
  by (simp add: normalize_request_id_def)

lemma py_int_minus_five: "py_int ''-5'' = Some (- 5)"
  by (simp add: py_int_def Py_ISSPACE_def Py_ISDIGIT_def transform_decimal_and_space_def
      decimal_value_def digit_value_def int_max_str_digits_def)

lemma py_int_42: "py_int ''42'' = Some 42"
  by (simp add: py_int_def Py_ISSPACE_def Py_ISDIGIT_def transform_decimal_and_space_def
      decimal_value_def digit_value_def int_max_str_digits_def)

lemma py_int_dev_A: "py_int ''dev-A'' = None"
  by (simp add: py_int_def Py_ISSPACE_def Py_ISDIGIT_def transform_decimal_and_space_def)

text \<open>
  C5. A device id that \<^verbatim>\<open>int()\<close> accepts is normalised to the integer it denotes, whatever
  the hash secret of the process; for a string of decimal digits that is its decimal
  value, negated when a minus sign stands in front.
\<close>

theorem normalize_numeric:
  "(py_int d = Some n \<longrightarrow> normalize_request_id secret d = n) \<and>
   (ds \<noteq> [] \<and> list_all Py_ISDIGIT ds \<and> length ds \<le> int_max_str_digits \<longrightarrow>
      normalize_request_id secret ds = int (decimal_value ds) \<and>
      normalize_request_id secret (CHR ''-'' # ds) = - int (decimal_value ds))"
  by (simp add: normalize_request_id_def py_int_digits)

theorem normalize_numeric_witness:
  "py_int ''-5'' = Some (- 5) \<and> normalize_request_id seed1 ''-5'' = - 5 \<and>
   ''42'' \<noteq> [] \<and> list_all Py_ISDIGIT ''42'' \<and> length ''42'' \<le> int_max_str_digits \<and>
   normalize_request_id seed1 ''42'' = 42 \<and> normalize_request_id seed1 ''-42'' = - 42"
proof -
  have h: "''42'' \<noteq> [] \<and> list_all Py_ISDIGIT ''42'' \<and> length ''42'' \<le> int_max_str_digits"
    by (simp add: Py_ISDIGIT_def int_max_str_digits_def)
  have v: "int (decimal_value ''42'') = 42"
    by (simp add: decimal_value_def digit_value_def)
  show ?thesis
    using h v py_int_minus_five
      normalize_numeric [of "''-5''" "- 5" seed1 "''42''"]
    by simp
qed

text \<open>SipHash of the device id \<^verbatim>\<open>dev-A\<close> under the two sample secrets, round by round.\<close>

lemma seed0_round1:
  "SINGLE_ROUND (8317987319222330741, 7237128888997146477, 7816392313619706465,
                 8171047201829683223) =
   (11012836477893534435, 17538455006666004930, 1558785224298577299, 7605799589718383952)"
  by (simp add: SINGLE_ROUND_def ROTATE_def Let_def)

lemma seed0_round2:
  "SINGLE_ROUND (11373124169395373959, 17538455006666004930, 1558785224298577260,
                 7605799589718383952) =
   (16283606637283279685, 7494918938114293101, 9289828588494098960, 8386681656624163614)"
  by (simp add: SINGLE_ROUND_def ROTATE_def Let_def)

lemma seed0_round3:
  "SINGLE_ROUND (16283606637283279685, 7494918938114293101, 9289828588494098960,
                 8386681656624163614) =
   (7774532276604114003, 11245486471494249048, 37272207594608956, 10168096974125788326)"
  by (simp add: SINGLE_ROUND_def ROTATE_def Let_def)

lemma seed0_round4:
  "SINGLE_ROUND (7774532276604114003, 11245486471494249048, 37272207594608956,
                 10168096974125788326) =
   (5305301906489603909, 10351831198430724978, 13191310543679374958, 6950292346887506234)"
  by (simp add: SINGLE_ROUND_def ROTATE_def Let_def)

lemma seed1_round1:
  "SINGLE_ROUND (15976802823627949660, 10342175217285988159, 14028444029786214728,
                 11136522074389712965) =
   (1649605779552159254, 11576956385678917091, 13565851395244540999, 15376590778039212863)"
  by (simp add: SINGLE_ROUND_def ROTATE_def Let_def)

lemma seed1_round2:
  "SINGLE_ROUND (1433433267269608306, 11576956385678917091, 13565851395244541112,
                 15376590778039212863) =
   (2583475848748284680, 14800294140557015860, 12228175923994304695, 3151083750802126095)"
  by (simp add: SINGLE_ROUND_def ROTATE_def Let_def)

lemma seed1_round3:
  "SINGLE_ROUND (2583475848748284680, 14800294140557015860, 12228175923994304695,
                 3151083750802126095) =
   (17166430260975357231, 17339139547046455919, 18122772243196611078, 9945601475914096593)"
  by (simp add: SINGLE_ROUND_def ROTATE_def Let_def)

lemma seed1_round4:
  "SINGLE_ROUND (17166430260975357231, 17339139547046455919, 18122772243196611078,
                 9945601475914096593) =
   (7346853105598581950, 16016150571950862650, 10761759646213779879, 17195985641065056071)"
  by (simp add: SINGLE_ROUND_def ROTATE_def Let_def)

lemma hash_dev_A_seed0: "py_hash seed0 ''dev-A'' = 1255859181064403811"
  by (simp add: py_hash_def seed0_def siphash13_def sip_block_def le64_def
      seed0_round1 seed0_round2 seed0_round3 seed0_round4)

lemma hash_dev_A_seed1: "py_hash seed1 ''dev-A'' = - 4590129698990519452"
  by (simp add: py_hash_def seed1_def siphash13_def sip_block_def le64_def
      seed1_round1 seed1_round2 seed1_round3 seed1_round4)

text \<open>
  C6. The fallback of \<^verbatim>\<open>normalize_request_id\<close> goes through the hash secret of the
  process: the same device id \<^verbatim>\<open>dev-A\<close> is normalised to 64403811 by a worker started with
  \<^verbatim>\<open>PYTHONHASHSEED=0\<close> and to 90519452 by one started with \<^verbatim>\<open>PYTHONHASHSEED=1\<close>.
\<close>

theorem normalize_depends_on_hash_secret:
  "normalize_request_id seed0 ''dev-A'' = 64403811 \<and>
   normalize_request_id seed1 ''dev-A'' = 90519452"
  by (simp add: normalize_request_id_def py_int_dev_A hash_dev_A_seed0 hash_dev_A_seed1)

text \<open>
  C9, as stated, fails: the device id \<^verbatim>\<open>-5\<close> is normalised to the negative integer it
  denotes.
\<close>

theorem normalize_negative_counterexample:
  "normalize_request_id seed0 ''-5'' < 0"
  by (simp add: normalize_request_id_def py_int_minus_five)

text \<open>
  C9, amended. \<^verbatim>\<open>normalize_request_id\<close> returns a negative integer exactly when the
  device id parses as a negative integer; for every other device id the result is
  nonnegative.
\<close>

theorem normalize_sign:
  "normalize_request_id secret d < 0 \<longleftrightarrow> (\<exists>n. py_int d = Some n \<and> n < 0)"
  by (cases "py_int d") (simp_all add: normalize_request_id_def)

theorem normalize_sign_witness:
  "\<not> (\<exists>n. py_int ''dev-A'' = Some n \<and> n < 0) \<and> 0 \<le> normalize_request_id seed1 ''dev-A''"
  using normalize_sign [of seed1 "''dev-A''"] py_int_dev_A by simp

subsection \<open>Status Store\<close>

lemma scalar_filter: "scalar (map f (filter P xs)) = map_option f (find P xs)"
  by (induction xs) (simp_all add: scalar_def)

lemma cache_job_status_frame [simp]:
  "request_status_logs (cache_job_status j s w) = request_status_logs w"
  "log_id_seq (cache_job_status j s w) = log_id_seq w"
  "request_resources (cache_job_status j s w) = request_resources w"
  "resource_id_seq (cache_job_status j s w) = resource_id_seq w"
  "files (cache_job_status j s w) = files w"
  "utcnow (cache_job_status j s w) = utcnow w"
  "invoked (cache_job_status j s w) = invoked w"
  "db_faults (cache_job_status j s w) = db_faults w"
  "fs_faults (cache_job_status j s w) = fs_faults w"
  "processes (cache_job_status j s w) = processes w"
  by (simp_all add: cache_job_status_def split: list.splits option.splits)

lemma update_log_request_id [simp]: "request_id (update_log k st dur err now r) = request_id r"
  by (simp add: update_log_def)

lemma update_log_log_id [simp]: "log_id (update_log k st dur err now r) = log_id r"
  by (simp add: update_log_def)

lemma log_request_raises:
  assumes "log_request rid uid st dur err created w = (Inl e, w')"
  shows "\<exists>rest. db_faults w = Some e # rest \<and> w' = w\<lparr>db_faults := rest\<rparr>"
  using assms
  by (auto simp: log_request_def Let_def split_def split: list.splits option.splits)

lemma log_request_returns:
  assumes "log_request rid uid st dur err created w = (Inr k, w')"
  shows "(\<forall>e rest. db_faults w \<noteq> Some e # rest) \<and> db_faults w' = tl (db_faults w)"
  using assms
  by (auto simp: log_request_def Let_def split_def insert_log_def
      split: list.splits option.splits if_splits)

lemma log_request_frame:
  assumes "log_request rid uid st dur err created w = (r, w')"
  shows "request_resources w' = request_resources w \<and> resource_id_seq w' = resource_id_seq w \<and>
         files w' = files w \<and> utcnow w' = utcnow w \<and> invoked w' = invoked w \<and>
         fs_faults w' = fs_faults w \<and> processes w' = processes w"
  using assms
  by (auto simp: log_request_def Let_def split_def insert_log_def
      split: list.splits option.splits if_splits)

lemma log_request_insert:
  assumes "\<forall>r \<in> set (request_status_logs w). request_id r \<noteq> rid"
    and "log_request rid uid st dur err created w = (Inr k, w')"
  shows "k = Suc (log_id_seq w) \<and>
         request_status_logs w' = request_status_logs w @
           [\<lparr>log_id = Suc (log_id_seq w), request_id = rid, user_id = uid, status = st,
             duration_seconds = dur, error_message = err,
             created_at = (case created of None \<Rightarrow> utcnow w | Some t \<Rightarrow> t),
             updated_at = utcnow w\<rparr>]"
proof -
  have "find (\<lambda>r. request_id r = rid) (request_status_logs w) = None"
    using assms(1) by (simp add: find_None_iff)
  then show ?thesis
    using assms(2)
    by (auto simp: log_request_def Let_def scalar_filter insert_log_def
        split: list.splits option.splits)
qed

lemma log_request_update:
  assumes "find (\<lambda>r. request_id r = rid) (request_status_logs w) = Some r0"
    and "log_id r0 \<noteq> 0"
    and "log_request rid uid st dur err created w = (Inr k, w')"
  shows "k = log_id r0 \<and>
         request_status_logs w' =
           map (update_log (log_id r0) st dur err (utcnow w)) (request_status_logs w)"
  using assms
  by (auto simp: log_request_def Let_def scalar_filter split: list.splits option.splits)

lemma find_map_update_log:
  assumes "find (\<lambda>r. request_id r = rid) rows = Some r0"
  shows "find (\<lambda>r. request_id r = rid) (map (update_log (log_id r0) st dur err now) rows) =
         Some (r0\<lparr>status := st, duration_seconds := dur, error_message := err,
                  updated_at := now\<rparr>)"
  using assms
proof (induction rows)
  case Nil
  then show ?case by simp
next
  case (Cons r rows)
  show ?case
  proof (cases "request_id r = rid")
    case True
    with Cons.prems have "r = r0" by simp
    with True show ?thesis by (simp add: update_log_def)
  next
    case False
    with Cons show ?thesis by simp
  qed
qed




text \<open>
  C10. On the update path (the first row found for the request id has a key that is not
  0) \<^verbatim>\<open>log_request\<close> stores the duration and the error message of the call, whatever
  the row held before; a call that leaves them out passes \<^verbatim>\<open>None\<close> and so erases both.
\<close>

theorem log_request_overwrites:
  assumes "find (\<lambda>r. request_id r = rid) (request_status_logs w) = Some r0"
    and "log_id r0 \<noteq> 0"
    and "log_request rid uid st dur err created w = (Inr k, w')"
  shows "k = log_id r0 \<and>
         request_status_logs w' =
           map (update_log (log_id r0) st dur err (utcnow w)) (request_status_logs w) \<and>
         find (\<lambda>r. request_id r = rid) (request_status_logs w') =
           Some (r0\<lparr>status := st, duration_seconds := dur, error_message := err,
                    updated_at := utcnow w\<rparr>)"
  using log_request_update [OF assms] find_map_update_log [OF assms(1)] by simp

theorem log_request_overwrites_witness:
  "map duration_seconds (request_status_logs recorded_world) = [Some 32] \<and>
   map error_message (request_status_logs recorded_world) = [Some ''init failed''] \<and>
   fst (log_request 42 ''alice'' ''create_started'' None None None recorded_world) = Inr 1 \<and>
   map (\<lambda>r. (status r, duration_seconds r, error_message r))
     (request_status_logs
        (snd (log_request 42 ''alice'' ''create_started'' None None None recorded_world))) =
   [(''create_started'', None, None)]"
proof -
  let ?r0 = "\<lparr>log_id = 1, request_id = 42, user_id = ''alice'', status = ''failed'',
               duration_seconds = Some 32, error_message = Some ''init failed'',
               created_at = 60, updated_at = 92\<rparr>"
  let ?c = "log_request 42 ''alice'' ''create_started'' None None None recorded_world"
  have h0: "find (\<lambda>r. request_id r = 42) (request_status_logs recorded_world) = Some ?r0"
    by (simp add: recorded_world_def fresh_world_def)
  have h1: "log_id ?r0 \<noteq> 0" by simp
  have f: "fst ?c = Inr 1"
    by (simp add: log_request_def recorded_world_def fresh_world_def scalar_def)
  have h2: "?c = (Inr 1, snd ?c)" using f by (metis prod.collapse)
  show ?thesis
    using f log_request_overwrites [OF h0 h1 h2]
    by (simp add: recorded_world_def fresh_world_def update_log_def)
qed

subsection \<open>Process Runner\<close>

text \<open>
  C4. When \<^verbatim>\<open>terraform init\<close> exits with a code other than 0,
  \<^verbatim>\<open>run_terraform_commands\<close> returns at once: the result is a failure whose log is the
  output of \<^verbatim>\<open>init\<close>, a line break and its error output, and the only command started is
  \<^verbatim>\<open>init\<close>; neither \<^verbatim>\<open>apply\<close> nor \<^verbatim>\<open>output\<close> is run.
\<close>

theorem init_failure_stops_pipeline:
  assumes "processes w = Exited ret out err dt # rest" and "ret \<noteq> 0"
  shows "run_terraform_commands p device_id instance_name w =
           (Inr (False, out @ ''\<newline>'' @ err, dt),
            w\<lparr>invoked := invoked w @ [(terraform_init, p)],
              processes := rest, utcnow := utcnow w + dt\<rparr>)"
  using assms by (simp add: run_terraform_commands_def run_cmd_def Let_def)

theorem init_failure_stops_pipeline_witness:
  "processes init_fails_world =
     Exited 1 ''Initializing the backend...'' ''Error: no bucket'' 2 #
     [Exited 0 ''Apply complete!'' [] 30] \<and> (1::int) \<noteq> 0 \<and>
   fst (run_terraform_commands ''/ws/42'' ''42'' ''web1'' init_fails_world) =
     Inr (False, ''Initializing the backend...\<newline>Error: no bucket'', 2) \<and>
   invoked (snd (run_terraform_commands ''/ws/42'' ''42'' ''web1'' init_fails_world)) =
     [([''terraform'', ''init'', ''-input=false''], ''/ws/42'')] \<and>
   processes (snd (run_terraform_commands ''/ws/42'' ''42'' ''web1'' init_fails_world)) =
     [Exited 0 ''Apply complete!'' [] 30]"
proof -
  have h: "processes init_fails_world =
     Exited 1 ''Initializing the backend...'' ''Error: no bucket'' 2 #
     [Exited 0 ''Apply complete!'' [] 30]"
    by (simp add: init_fails_world_def fresh_world_def)
  have n: "(1::int) \<noteq> 0" by simp
  show ?thesis
    using h init_failure_stops_pipeline [OF h n, of "''/ws/42''" "''42''" "''web1''"]
    by (simp add: init_fails_world_def fresh_world_def terraform_init_def)
qed

subsection \<open>Job Orchestrator\<close>

text \<open>
  C7. When the first status write (\<^verbatim>\<open>create_started\<close> or \<^verbatim>\<open>destroy_started\<close>) raises, the
  flow raises the same exception to its caller; no row of either table, no cache entry
  and no file is written and no command is run.
\<close>

theorem started_write_failure_propagates:
  "(log_request (normalize_request_id secret d) u ''create_started'' None None None w = (Inl e, w1)
      \<longrightarrow> create_server_job secret cfg d n u w = (Inl e, w1)) \<and>
   (log_request (normalize_request_id secret d) u ''destroy_started'' None None None w = (Inl e, w1)
      \<longrightarrow> destroy_server_job secret cfg d n u w = (Inl e, w1)) \<and>
   (log_request rid u st dur err created w = (Inl e, w1)
      \<longrightarrow> request_status_logs w1 = request_status_logs w \<and>
          request_resources w1 = request_resources w \<and> redis w1 = redis w \<and>
          files w1 = files w \<and> invoked w1 = invoked w)"
proof -
  have "log_request rid u st dur err created w = (Inl e, w1) \<Longrightarrow>
          request_status_logs w1 = request_status_logs w \<and>
          request_resources w1 = request_resources w \<and> redis w1 = redis w \<and>
          files w1 = files w \<and> invoked w1 = invoked w"
    using log_request_raises [of rid u st dur err created w e w1] by auto
  then show ?thesis
    by (simp add: create_server_job_def destroy_server_job_def Let_def)
qed

theorem started_write_failure_propagates_witness:
  "log_request (normalize_request_id seed0 ''42'') ''alice'' ''create_started'' None None None
     db_down_world = (Inl (Exception ''connection refused''), fresh_world) \<and>
   log_request (normalize_request_id seed0 ''42'') ''alice'' ''destroy_started'' None None None
     db_down_world = (Inl (Exception ''connection refused''), fresh_world) \<and>
   create_server_job seed0 sample_settings ''42'' ''web1'' ''alice'' db_down_world =
     (Inl (Exception ''connection refused''), fresh_world) \<and>
   destroy_server_job seed0 sample_settings ''42'' ''web1'' ''alice'' db_down_world =
     (Inl (Exception ''connection refused''), fresh_world) \<and>
   request_status_logs fresh_world = request_status_logs db_down_world"
proof -
  have c: "log_request (normalize_request_id seed0 ''42'') ''alice'' ''create_started''
             None None None db_down_world = (Inl (Exception ''connection refused''), fresh_world)"
    by (simp add: log_request_def db_down_world_def fresh_world_def)
  have d: "log_request (normalize_request_id seed0 ''42'') ''alice'' ''destroy_started''
             None None None db_down_world = (Inl (Exception ''connection refused''), fresh_world)"
    by (simp add: log_request_def db_down_world_def fresh_world_def)
  show ?thesis
    using c d
      started_write_failure_propagates [of seed0 "''42''" "''alice''" db_down_world
        "Exception ''connection refused''" fresh_world sample_settings "''web1''"
        "normalize_request_id seed0 ''42''" "''create_started''" None None None]
    by simp
qed

subsection \<open>Workspace Builder: the text of the files\<close>

lemma split_not_Nil [simp]: "split sep s \<noteq> []"
  by (induction s) (auto split: list.splits)

lemma hd_split_append:
  "sep \<notin> set k \<Longrightarrow> hd (split sep (k @ b)) = k @ hd (split sep b)"
  by (induction k) (auto split: list.splits)

lemma split_has_line:
  assumes "sublist k s" and "sep \<notin> set k"
  shows "\<exists>l \<in> set (split sep s). sublist k l"
proof -
  from assms(1) obtain a b where s: "s = a @ k @ b"
    by (auto simp: sublist_def)
  have "\<exists>l \<in> set (split sep (a @ k @ b)). sublist k l"
  proof (induction a)
    case Nil
    have "hd (split sep (k @ b)) \<in> set (split sep (k @ b))" by simp
    then show ?case
      using hd_split_append [OF assms(2), of b] by (metis append_Nil sublist_append_rightI)
  next
    case (Cons c a)
    then obtain l where l: "l \<in> set (split sep (a @ k @ b))" "sublist k l" by blast
    show ?case
    proof (cases "c = sep")
      case True
      with l show ?thesis by auto
    next
      case False
      obtain x xs where sp: "split sep (a @ k @ b) = x # xs"
        by (cases "split sep (a @ k @ b)") auto
      show ?thesis
      proof (cases "l = x")
        case True
        then have "sublist k (c # x)" using l(2) by (simp add: sublist_Cons_right)
        with False sp show ?thesis by auto
      next
        case False
        with l(1) sp have "l \<in> set xs" by auto
        with \<open>c \<noteq> sep\<close> sp l(2) show ?thesis by auto
      qed
    qed
  qed
  then show ?thesis by (simp add: s)
qed

lemma join_has_line: "l \<in> set ls \<Longrightarrow> sublist k l \<Longrightarrow> sublist k (join sep ls)"
proof (induction sep ls rule: join.induct)
  case (1 sep)
  then show ?case by simp
next
  case (2 sep x)
  then show ?case by simp
next
  case (3 sep x y ys)
  show ?case
  proof (cases "l = x")
    case True
    with 3 show ?thesis by (auto simp: sublist_append)
  next
    case False
    with 3 have "sublist k (join sep (y # ys))" by auto
    then show ?thesis by (auto simp: sublist_append)
  qed
qed

lemma sublist_dropWhile_keeps:
  assumes "sublist k s" and "k \<noteq> []" and "\<not> P (hd k)"
  shows "sublist k (dropWhile P s)"
proof -
  from assms(1) obtain a b where s: "s = a @ k @ b" by (auto simp: sublist_def)
  obtain c cs where k: "k = c # cs" using assms(2) by (cases k) auto
  show ?thesis
  proof (cases "\<forall>x \<in> set a. P x")
    case True
    then have "dropWhile P s = dropWhile P (k @ b)" by (simp add: s)
    also have "\<dots> = k @ b" using assms(3) k by simp
    finally show ?thesis by simp
  next
    case False
    then obtain x where "x \<in> set a" "\<not> P x" by blast
    then have "dropWhile P s = dropWhile P a @ k @ b"
      by (simp add: s dropWhile_append1)
    then show ?thesis by simp
  qed
qed

lemma sublist_strip:
  assumes "sublist k s" and "k \<noteq> []" and "\<not> isspace (hd k)" and "\<not> isspace (last k)"
  shows "sublist k (strip s)"
proof -
  have 1: "sublist k (dropWhile isspace s)"
    using assms(1-3) by (rule sublist_dropWhile_keeps)
  have "sublist (rev k) (dropWhile isspace (rev (dropWhile isspace s)))"
  proof (rule sublist_dropWhile_keeps)
    show "sublist (rev k) (rev (dropWhile isspace s))" using 1 by simp
    show "rev k \<noteq> []" using assms(2) by simp
    show "\<not> isspace (hd (rev k))" using assms(2,4) by (simp add: hd_rev)
  qed
  then show ?thesis by (simp add: strip_def sublist_rev_right)
qed

lemma sublist_drop_blanks:
  assumes "sublist k l" and "k \<noteq> []" and "\<not> blank_or_tab (hd k)"
    and "list_all blank_or_tab (take n l)"
  shows "sublist k (drop n l)"
proof -
  from assms(1) obtain a b where l: "l = a @ k @ b" by (auto simp: sublist_def)
  obtain c cs where k: "k = c # cs" using assms(2) by (cases k) auto
  have "n \<le> length a"
  proof (rule ccontr)
    assume "\<not> n \<le> length a"
    then have "c \<in> set (take n l)"
      by (simp add: l k take_Cons' )
    with assms(3,4) k show False by (auto simp: list_all_iff)
  qed
  then have "drop n l = drop n a @ k @ b" by (simp add: l)
  then show ?thesis by simp
qed

lemma sublist_not_blank_line:
  assumes "sublist k l" and "k \<noteq> []" and "\<not> blank_or_tab (hd k)"
  shows "\<not> list_all blank_or_tab l"
proof -
  from assms(1) obtain a b where l: "l = a @ k @ b" by (auto simp: sublist_def)
  obtain c cs where k: "k = c # cs" using assms(2) by (cases k) auto
  show ?thesis using assms(3) by (simp add: l k)
qed

lemma sublist_cut_margin:
  assumes "sublist k l" and "k \<noteq> []" and "\<not> blank_or_tab (hd k)"
    and "list_all blank_or_tab m"
  shows "sublist k (cut_margin m l)"
proof (cases "prefix m l")
  case True
  then have "take (length m) l = m" by (auto simp: prefix_def)
  then show ?thesis
    using True assms sublist_drop_blanks [of k l "length m"] by (simp add: cut_margin_def)
next
  case False
  then show ?thesis using assms(1) by (simp add: cut_margin_def)
qed

lemma common_prefix_blank:
  "list_all P xs \<Longrightarrow> list_all P (common_prefix xs ys)"
  by (induction xs ys rule: common_prefix.induct) auto

lemma margin_blank:
  assumes "list_all (list_all blank_or_tab) indents"
    and "case m0 of None \<Rightarrow> True | Some m \<Rightarrow> list_all blank_or_tab m"
  shows "case foldl next_margin m0 indents of
           None \<Rightarrow> True | Some m \<Rightarrow> list_all blank_or_tab m"
  using assms
proof (induction indents arbitrary: m0)
  case Nil
  then show ?case by simp
next
  case (Cons i indents)
  have "case next_margin m0 i of None \<Rightarrow> True | Some m \<Rightarrow> list_all blank_or_tab m"
    using Cons.prems
    by (auto simp: next_margin_def common_prefix_blank split: option.splits)
  with Cons show ?case by simp
qed

lemma dedent_keeps:
  assumes "sublist k s" and "k \<noteq> []" and "\<not> blank_or_tab (hd k)" and "CHR 0x0A \<notin> set k"
  shows "sublist k (dedent s)"
proof -
  let ?blank = "\<lambda>l. if list_all blank_or_tab l then [] else l"
  let ?lines = "map ?blank (split CHR 0x0A s)"
  let ?indents = "map (takeWhile blank_or_tab) (filter (\<lambda>l. l \<noteq> []) ?lines)"
  obtain l where l: "l \<in> set (split CHR 0x0A s)" "sublist k l"
    using split_has_line [OF assms(1,4)] by blast
  have keep: "?blank l = l"
    using sublist_not_blank_line [OF l(2) assms(2,3)] by simp
  have "?blank l \<in> ?blank ` set (split CHR 0x0A s)" using l(1) by (rule imageI)
  then have mem: "l \<in> set ?lines" using keep by simp
  have plain: "sublist k (join ''\<newline>'' ?lines)"
    using mem l(2) by (rule join_has_line)
  have "list_all (list_all blank_or_tab) ?indents"
    by (auto simp: list_all_iff dest: set_takeWhileD)
  then have mb: "case foldl next_margin None ?indents of
                   None \<Rightarrow> True | Some m \<Rightarrow> list_all blank_or_tab m"
    by (rule margin_blank) simp
  show ?thesis
  proof (cases "foldl next_margin None ?indents")
    case None
    then show ?thesis using plain by (simp add: dedent_def Let_def)
  next
    case (Some m)
    then have "list_all blank_or_tab m" using mb by simp
    then have "sublist k (cut_margin m l)"
      using sublist_cut_margin [OF l(2) assms(2,3)] by simp
    moreover have "cut_margin m l \<in> set (map (cut_margin m) ?lines)"
      using mem by (simp only: set_map) (rule imageI)
    ultimately have "sublist k (join ''\<newline>'' (map (cut_margin m) ?lines))"
      using join_has_line by blast
    then show ?thesis using Some plain by (simp add: dedent_def Let_def)
  qed
qed

text \<open>The line of the backend block that names the state of a device.\<close>

lemma provider_tf_key:
  assumes "CHR 0x0A \<notin> set device_id"
  shows \<open>sublist (''key            = "state/'' @ device_id @ ''.tfstate"'')
           (strip (provider_tf cfg device_id) @ ''\<newline>'')\<close>
proof -
  let ?k = \<open>''key            = "state/'' @ device_id @ ''.tfstate"''\<close>
  have nl: "CHR 0x0A \<notin> set ?k" using assms by simp
  have ne: "?k \<noteq> []" by simp
  have hd: "\<not> blank_or_tab (hd ?k)" "\<not> isspace (hd ?k)"
    by (simp_all add: blank_or_tab_def isspace_def)
  have "last ?k = CHR 0x22" by simp
  then have last: "\<not> isspace (last ?k)" by (simp add: isspace_def)
  have "sublist ?k (''        '' @ ?k)" by (rule sublist_append_leftI)
  then have "sublist ?k (provider_tf cfg device_id)"
    unfolding provider_tf_def
    by (intro dedent_keeps [OF _ ne hd(1) nl] join_has_line [where l = "''        '' @ ?k"])
       simp_all
  then have "sublist ?k (strip (provider_tf cfg device_id))"
    using ne hd(2) last by (rule sublist_strip)
  then show ?thesis by (auto simp: sublist_append)
qed


subsection \<open>Workspace Builder: the directory\<close>

lemmas fs_defs =
  generate_root_terraform_files_def has_nul_def step_def rstrip_sep_def start_of_def
  path_lookup_def os_path_exists_def os_path_isdir_def fs_fault_def os_mkdir_def os_rmdir_def
  shutil_rmtree_def os_path_split_def makedirs_split_def mkdir_exist_ok_def makedirs_last_def
  is_FileExistsError_def os_makedirs.simps write_file_def os_path_join_def Let_def
  sample_settings_def stale_world_def fresh_world_def

text \<open>
  The regular case, on \<open>stale_world\<close>: the workspace of device \<^verbatim>\<open>42\<close> holds a state file
  and a directory \<^verbatim>\<open>.terraform\<close> from an earlier run. The builder returns; the directory is
  there again and holds the four generated files and nothing else.
\<close>

lemma stale_workspace_replaced:
  \<open>os_path_exists (os_path_join (TERRAFORM_ROOT sample_settings) ''42'') stale_world \<and>
    fst (generate_root_terraform_files sample_settings ''42'' ''web1''
          (os_path_join (TERRAFORM_ROOT sample_settings) ''42'') stale_world) = Inr () \<and>
    files (snd (generate_root_terraform_files sample_settings ''42'' ''web1''
          (os_path_join (TERRAFORM_ROOT sample_settings) ''42'') stale_world)) =
      [[] \<mapsto> Dir, [''worker''] \<mapsto> Dir, [''worker'', ''app''] \<mapsto> Dir,
       [''worker'', ''app'', ''terraform_templates''] \<mapsto> Dir,
       [''worker'', ''app'', ''terraform_templates'', ''42''] \<mapsto> Dir,
       [''worker'', ''app'', ''terraform_templates'', ''42'', ''main.tf''] \<mapsto>
         File (strip (main_tf ''42'' ''web1'') @ ''\<newline>''),
       [''worker'', ''app'', ''terraform_templates'', ''42'', ''variables.tf''] \<mapsto>
         File (strip variables_tf @ ''\<newline>''),
       [''worker'', ''app'', ''terraform_templates'', ''42'', ''outputs.tf''] \<mapsto>
         File (strip outputs_tf @ ''\<newline>''),
       [''worker'', ''app'', ''terraform_templates'', ''42'', ''provider.tf''] \<mapsto>
         File (strip (provider_tf sample_settings ''42'') @ ''\<newline>'')]\<close>
proof -
  let ?g = "generate_root_terraform_files sample_settings ''42'' ''web1''
              (os_path_join (TERRAFORM_ROOT sample_settings) ''42'') stale_world"
  have a: "os_path_exists (os_path_join (TERRAFORM_ROOT sample_settings) ''42'') stale_world"
    by (simp add: fs_defs)
  have b: "fst ?g = Inr ()"
    by (simp add: fs_defs)
  have c: \<open>files (snd ?g) q =
      [[] \<mapsto> Dir, [''worker''] \<mapsto> Dir, [''worker'', ''app''] \<mapsto> Dir,
       [''worker'', ''app'', ''terraform_templates''] \<mapsto> Dir,
       [''worker'', ''app'', ''terraform_templates'', ''42''] \<mapsto> Dir,
       [''worker'', ''app'', ''terraform_templates'', ''42'', ''main.tf''] \<mapsto>
         File (strip (main_tf ''42'' ''web1'') @ ''\<newline>''),
       [''worker'', ''app'', ''terraform_templates'', ''42'', ''variables.tf''] \<mapsto>
         File (strip variables_tf @ ''\<newline>''),
       [''worker'', ''app'', ''terraform_templates'', ''42'', ''outputs.tf''] \<mapsto>
         File (strip outputs_tf @ ''\<newline>''),
       [''worker'', ''app'', ''terraform_templates'', ''42'', ''provider.tf''] \<mapsto>
         File (strip (provider_tf sample_settings ''42'') @ ''\<newline>'')] q\<close> for q
    by (simp add: fs_defs)
  show ?thesis using a b c by (intro conjI ext)
qed

text \<open>
  C8. The code does not do what the claim says for every device id. The text of
  \<^verbatim>\<open>provider.tf\<close> goes through \<^verbatim>\<open>textwrap.dedent\<close> after the device id has been put into
  it: for the device id \<^verbatim>\<open>a<LF> b\<close> the builder returns, and the backend block of the file
  written has the key \<^verbatim>\<open>state/a<LF>b.tfstate\<close>, the blank after the line break cut off;
  the key \<^verbatim>\<open>state/a<LF> b.tfstate\<close> of the claim is nowhere in the file.
\<close>

theorem state_key_cut_by_dedent:
  \<open>fst (generate_root_terraform_files sample_settings ''a\<newline> b'' ''web1''
          (os_path_join (TERRAFORM_ROOT sample_settings) ''a\<newline> b'') fresh_world) = Inr () \<and>
    files (snd (generate_root_terraform_files sample_settings ''a\<newline> b'' ''web1''
          (os_path_join (TERRAFORM_ROOT sample_settings) ''a\<newline> b'') fresh_world))
      [''worker'', ''app'', ''terraform_templates'', ''a\<newline> b'', ''provider.tf''] =
      Some (File
        (''terraform {\<newline>'' @
         ''     required_version = ">= 1.1.0"\<newline>'' @
         ''\<newline>'' @
         ''     backend "s3" {\<newline>'' @
         ''       bucket         = "tf-state"\<newline>'' @
         ''       key            = "state/a\<newline>'' @
         ''b.tfstate"\<newline>'' @
         ''       region         = "us-east-1"\<newline>'' @
         ''       dynamodb_table = "None"\<newline>'' @
         ''       encrypt        = true\<newline>'' @
         ''     }\<newline>'' @
         ''   }\<newline>'' @
         ''\<newline>'' @
         ''   provider "aws" {\<newline>'' @
         ''     region = "us-east-1"\<newline>'' @
         ''   }\<newline>'')) \<and>
    \<not> sublist ''state/a\<newline> b.tfstate''
        (strip (provider_tf sample_settings ''a\<newline> b'') @ ''\<newline>'')\<close>
proof -
  let ?g = "generate_root_terraform_files sample_settings ''a\<newline> b'' ''web1''
              (os_path_join (TERRAFORM_ROOT sample_settings) ''a\<newline> b'') fresh_world"
  have content: \<open>strip (provider_tf sample_settings ''a\<newline> b'') @ ''\<newline>'' =
         ''terraform {\<newline>'' @
         ''     required_version = ">= 1.1.0"\<newline>'' @
         ''\<newline>'' @
         ''     backend "s3" {\<newline>'' @
         ''       bucket         = "tf-state"\<newline>'' @
         ''       key            = "state/a\<newline>'' @
         ''b.tfstate"\<newline>'' @
         ''       region         = "us-east-1"\<newline>'' @
         ''       dynamodb_table = "None"\<newline>'' @
         ''       encrypt        = true\<newline>'' @
         ''     }\<newline>'' @
         ''   }\<newline>'' @
         ''\<newline>'' @
         ''   provider "aws" {\<newline>'' @
         ''     region = "us-east-1"\<newline>'' @
         ''   }\<newline>''\<close>
    by (simp add: provider_tf_def sample_settings_def dedent_def strip_def isspace_def
        blank_or_tab_def next_margin_def cut_margin_def)
  have ok: "fst ?g = Inr ()"
    by (simp add: fs_defs)
  have written: "files (snd ?g)
      [''worker'', ''app'', ''terraform_templates'', ''a\<newline> b'', ''provider.tf''] =
      Some (File (strip (provider_tf sample_settings ''a\<newline> b'') @ ''\<newline>''))"
    by (simp add: fs_defs)
  have absent: \<open>\<not> sublist ''state/a\<newline> b.tfstate''
        (strip (provider_tf sample_settings ''a\<newline> b'') @ ''\<newline>'')\<close>
    unfolding content by (simp add: sublist_code)
  show ?thesis using ok written absent by (simp add: content)
qed

text \<open>
  The deletion is missed as well when the device id leaves the workspace root and comes
  back. The code hands the joined path to the operating system as it is: for the device
  id \<^verbatim>\<open>x/../42\<close> on \<open>stale_world\<close>, where no directory \<^verbatim>\<open>x\<close> exists, \<^verbatim>\<open>os.path.exists\<close>
  is false and nothing is deleted; \<^verbatim>\<open>os.makedirs\<close> then makes \<^verbatim>\<open>x\<close>, and the four files are
  written into the workspace of device \<^verbatim>\<open>42\<close>, next to what the earlier run left there.
\<close>

lemma stale_workspace_kept:
  \<open>\<not> os_path_exists (os_path_join (TERRAFORM_ROOT sample_settings) ''x/../42'') stale_world \<and>
    fst (generate_root_terraform_files sample_settings ''x/../42'' ''web1''
          (os_path_join (TERRAFORM_ROOT sample_settings) ''x/../42'') stale_world) = Inr () \<and>
    files (snd (generate_root_terraform_files sample_settings ''x/../42'' ''web1''
          (os_path_join (TERRAFORM_ROOT sample_settings) ''x/../42'') stale_world)) =
      (files stale_world)
      ([''worker'', ''app'', ''terraform_templates'', ''x''] \<mapsto> Dir,
       [''worker'', ''app'', ''terraform_templates'', ''42'', ''main.tf''] \<mapsto>
         File (strip (main_tf ''x/../42'' ''web1'') @ ''\<newline>''),
       [''worker'', ''app'', ''terraform_templates'', ''42'', ''variables.tf''] \<mapsto>
         File (strip variables_tf @ ''\<newline>''),
       [''worker'', ''app'', ''terraform_templates'', ''42'', ''outputs.tf''] \<mapsto>
         File (strip outputs_tf @ ''\<newline>''),
       [''worker'', ''app'', ''terraform_templates'', ''42'', ''provider.tf''] \<mapsto>
         File (strip (provider_tf sample_settings ''x/../42'') @ ''\<newline>'')) \<and>
    files stale_world [''worker'', ''app'', ''terraform_templates'', ''42'',
      ''terraform.tfstate''] = Some (File ''{}'')\<close>
proof -
  let ?g = "generate_root_terraform_files sample_settings ''x/../42'' ''web1''
              (os_path_join (TERRAFORM_ROOT sample_settings) ''x/../42'') stale_world"
  have a: "\<not> os_path_exists (os_path_join (TERRAFORM_ROOT sample_settings) ''x/../42'')
             stale_world"
    by (simp add: fs_defs)
  have b: "fst ?g = Inr ()"
    by (simp add: fs_defs)
  have c: \<open>files (snd ?g) q =
      ((files stale_world)
      ([''worker'', ''app'', ''terraform_templates'', ''x''] \<mapsto> Dir,
       [''worker'', ''app'', ''terraform_templates'', ''42'', ''main.tf''] \<mapsto>
         File (strip (main_tf ''x/../42'' ''web1'') @ ''\<newline>''),
       [''worker'', ''app'', ''terraform_templates'', ''42'', ''variables.tf''] \<mapsto>
         File (strip variables_tf @ ''\<newline>''),
       [''worker'', ''app'', ''terraform_templates'', ''42'', ''outputs.tf''] \<mapsto>
         File (strip outputs_tf @ ''\<newline>''),
       [''worker'', ''app'', ''terraform_templates'', ''42'', ''provider.tf''] \<mapsto>
         File (strip (provider_tf sample_settings ''x/../42'') @ ''\<newline>''))) q\<close> for q
    by (simp add: fs_defs)
  have d: "files stale_world [''worker'', ''app'', ''terraform_templates'', ''42'',
      ''terraform.tfstate''] = Some (File ''{}'')"
    by (simp add: stale_world_def fresh_world_def)
  show ?thesis using a b c d by (intro conjI ext)
qed

subsection \<open>What each step leaves untouched\<close>

lemma fs_fault_frame:
  assumes "fs_fault w = (f, w')"
  shows "request_status_logs w' = request_status_logs w \<and> log_id_seq w' = log_id_seq w \<and>
         request_resources w' = request_resources w \<and> resource_id_seq w' = resource_id_seq w \<and>
         redis w' = redis w \<and> utcnow w' = utcnow w \<and> invoked w' = invoked w \<and>
         db_faults w' = db_faults w \<and> redis_faults w' = redis_faults w \<and>
         processes w' = processes w"
  using assms by (auto simp: fs_fault_def split: list.splits)

lemma os_rmdir_frame:
  assumes "os_rmdir p w = (r, w')"
  shows "request_status_logs w' = request_status_logs w \<and> log_id_seq w' = log_id_seq w \<and>
         request_resources w' = request_resources w \<and> resource_id_seq w' = resource_id_seq w \<and>
         redis w' = redis w \<and> utcnow w' = utcnow w \<and> invoked w' = invoked w \<and>
         db_faults w' = db_faults w \<and> redis_faults w' = redis_faults w \<and>
         processes w' = processes w"
  using assms
  by (auto simp: os_rmdir_def Let_def split: if_splits sum.splits option.splits node.splits)

lemma shutil_rmtree_frame:
  assumes "shutil_rmtree p w = (r, w')"
  shows "request_status_logs w' = request_status_logs w \<and> log_id_seq w' = log_id_seq w \<and>
         request_resources w' = request_resources w \<and> resource_id_seq w' = resource_id_seq w \<and>
         redis w' = redis w \<and> utcnow w' = utcnow w \<and> invoked w' = invoked w \<and>
         db_faults w' = db_faults w \<and> redis_faults w' = redis_faults w \<and>
         processes w' = processes w"
proof (cases "has_nul p")
  case True
  then show ?thesis using assms by (simp add: shutil_rmtree_def)
next
  case False
  obtain f b where ff: "fs_fault w = (f, b)" by (cases "fs_fault w")
  note fb = fs_fault_frame [OF ff]
  show ?thesis
  proof (cases f)
    case (Some e)
    then have "w' = b" using assms ff False by (simp add: shutil_rmtree_def)
    then show ?thesis using fb by simp
  next
    case None
    show ?thesis
    proof (cases "\<exists>l. path_lookup b p = Inr l \<and> files b l = Some Dir")
      case True
      then obtain l where l: "path_lookup b p = Inr l" "files b l = Some Dir" by blast
      have "os_rmdir p (b\<lparr>files := (\<lambda>q. if strict_prefix l q then None else files b q)\<rparr>) =
              (r, w')"
        using assms ff False None l by (simp add: shutil_rmtree_def)
      from os_rmdir_frame [OF this] show ?thesis using fb by simp
    next
      case no: False
      have "w' = b"
        using assms ff False None no
        by (auto simp: shutil_rmtree_def split: sum.splits option.splits node.splits)
      then show ?thesis using fb by simp
    qed
  qed
qed

lemma os_mkdir_frame:
  assumes "os_mkdir p w = (r, w')"
  shows "request_status_logs w' = request_status_logs w \<and> log_id_seq w' = log_id_seq w \<and>
         request_resources w' = request_resources w \<and> resource_id_seq w' = resource_id_seq w \<and>
         redis w' = redis w \<and> utcnow w' = utcnow w \<and> invoked w' = invoked w \<and>
         db_faults w' = db_faults w \<and> redis_faults w' = redis_faults w \<and>
         processes w' = processes w"
proof (cases "has_nul p")
  case True
  then show ?thesis using assms by (simp add: os_mkdir_def)
next
  case False
  obtain f b where ff: "fs_fault w = (f, b)" by (cases "fs_fault w")
  note fb = fs_fault_frame [OF ff]
  have "w' = b \<or> (\<exists>l. w' = b\<lparr>files := (files b)(l \<mapsto> Dir)\<rparr>)"
    using assms ff False
    by (auto simp: os_mkdir_def split: if_splits sum.splits option.splits)
  then show ?thesis using fb by auto
qed

lemma mkdir_exist_ok_frame:
  assumes "mkdir_exist_ok p w = (r, w')"
  shows "request_status_logs w' = request_status_logs w \<and> log_id_seq w' = log_id_seq w \<and>
         request_resources w' = request_resources w \<and> resource_id_seq w' = resource_id_seq w \<and>
         redis w' = redis w \<and> utcnow w' = utcnow w \<and> invoked w' = invoked w \<and>
         db_faults w' = db_faults w \<and> redis_faults w' = redis_faults w \<and>
         processes w' = processes w"
proof -
  obtain r1 w1 where s1: "os_mkdir p w = (r1, w1)" by (cases "os_mkdir p w")
  have "w' = w1"
    using assms s1 by (auto simp: mkdir_exist_ok_def split: sum.splits exn.splits if_splits)
  then show ?thesis using os_mkdir_frame [OF s1] by simp
qed

lemma makedirs_last_frame:
  assumes "makedirs_last t p w = (r, w')"
  shows "request_status_logs w' = request_status_logs w \<and> log_id_seq w' = log_id_seq w \<and>
         request_resources w' = request_resources w \<and> resource_id_seq w' = resource_id_seq w \<and>
         redis w' = redis w \<and> utcnow w' = utcnow w \<and> invoked w' = invoked w \<and>
         db_faults w' = db_faults w \<and> redis_faults w' = redis_faults w \<and>
         processes w' = processes w"
proof (cases "t = ''.''")
  case True
  then show ?thesis using assms by (simp add: makedirs_last_def)
next
  case False
  then have "mkdir_exist_ok p w = (r, w')" using assms by (simp add: makedirs_last_def)
  then show ?thesis by (rule mkdir_exist_ok_frame)
qed

lemma os_makedirs_frame:
  "os_makedirs p w = (r, w') \<Longrightarrow>
     request_status_logs w' = request_status_logs w \<and> log_id_seq w' = log_id_seq w \<and>
     request_resources w' = request_resources w \<and> resource_id_seq w' = resource_id_seq w \<and>
     redis w' = redis w \<and> utcnow w' = utcnow w \<and> invoked w' = invoked w \<and>
     db_faults w' = db_faults w \<and> redis_faults w' = redis_faults w \<and>
     processes w' = processes w"
proof (induction p w arbitrary: r w' rule: os_makedirs.induct)
  case (1 name w)
  let ?h = "fst (makedirs_split name)"
  let ?t = "snd (makedirs_split name)"
  show ?case
  proof (cases "?h \<noteq> [] \<and> ?t \<noteq> [] \<and> \<not> os_path_exists ?h w")
    case True
    obtain r1 w1 where s1: "os_makedirs ?h w = (r1, w1)" by (cases "os_makedirs ?h w")
    have f1: "request_status_logs w1 = request_status_logs w \<and> log_id_seq w1 = log_id_seq w \<and>
       request_resources w1 = request_resources w \<and> resource_id_seq w1 = resource_id_seq w \<and>
       redis w1 = redis w \<and> utcnow w1 = utcnow w \<and> invoked w1 = invoked w \<and>
       db_faults w1 = db_faults w \<and> redis_faults w1 = redis_faults w \<and>
       processes w1 = processes w"
      using True s1 by (rule "1.IH")
    have "(r, w') = (r1, w1) \<or> makedirs_last ?t name w1 = (r, w')"
      using "1.prems" True s1
      by (subst (asm) os_makedirs.simps) (auto split: sum.splits if_splits)
    then show ?thesis
    proof
      assume "(r, w') = (r1, w1)"
      then show ?thesis using f1 by simp
    next
      assume "makedirs_last ?t name w1 = (r, w')"
      from makedirs_last_frame [OF this] show ?thesis using f1 by simp
    qed
  next
    case False
    then have "mkdir_exist_ok name w = (r, w')"
      using "1.prems" by (subst (asm) os_makedirs.simps) auto
    then show ?thesis by (rule mkdir_exist_ok_frame)
  qed
qed

lemma write_file_frame:
  assumes "write_file q c w = (r, w')"
  shows "request_status_logs w' = request_status_logs w \<and> log_id_seq w' = log_id_seq w \<and>
         request_resources w' = request_resources w \<and> resource_id_seq w' = resource_id_seq w \<and>
         redis w' = redis w \<and> utcnow w' = utcnow w \<and> invoked w' = invoked w \<and>
         db_faults w' = db_faults w \<and> redis_faults w' = redis_faults w \<and>
         processes w' = processes w"
proof (cases "has_nul q")
  case True
  then show ?thesis using assms by (simp add: write_file_def)
next
  case False
  obtain f b where ff: "fs_fault w = (f, b)" by (cases "fs_fault w")
  note fb = fs_fault_frame [OF ff]
  have "w' = b \<or> (\<exists>l. w' = b\<lparr>files := (files b)(l \<mapsto> File c)\<rparr>)"
    using assms ff False
    by (auto simp: write_file_def split: if_splits sum.splits option.splits node.splits)
  then show ?thesis using fb by auto
qed

lemma write_files_frame:
  assumes "write_files p fs w = (r, w')"
  shows "request_status_logs w' = request_status_logs w \<and> log_id_seq w' = log_id_seq w \<and>
         request_resources w' = request_resources w \<and> resource_id_seq w' = resource_id_seq w \<and>
         redis w' = redis w \<and> utcnow w' = utcnow w \<and> invoked w' = invoked w \<and>
         db_faults w' = db_faults w \<and> redis_faults w' = redis_faults w \<and>
         processes w' = processes w"
  using assms
proof (induction fs arbitrary: w)
  case Nil
  then show ?case by simp
next
  case (Cons x fs)
  obtain name c where x: "x = (name, c)" by (cases x)
  obtain r1 w1 where step: "write_file (os_path_join p name) (strip c @ ''\<newline>'') w = (r1, w1)"
    by (cases "write_file (os_path_join p name) (strip c @ ''\<newline>'') w")
  show ?case
  proof (cases r1)
    case (Inl e)
    with Cons.prems x step have "w' = w1" by simp
    then show ?thesis using write_file_frame [OF step] by simp
  next
    case (Inr u)
    with Cons.prems x step have "write_files p fs w1 = (r, w')" by simp
    then show ?thesis using Cons.IH [of w1] write_file_frame [OF step] by simp
  qed
qed

lemma generate_root_terraform_files_frame:
  assumes "generate_root_terraform_files cfg device_id instance_name p w = (r, w')"
  shows "request_status_logs w' = request_status_logs w \<and> log_id_seq w' = log_id_seq w \<and>
         request_resources w' = request_resources w \<and> resource_id_seq w' = resource_id_seq w \<and>
         redis w' = redis w \<and> utcnow w' = utcnow w \<and> invoked w' = invoked w \<and>
         db_faults w' = db_faults w \<and> redis_faults w' = redis_faults w \<and>
         processes w' = processes w"
proof -
  obtain r1 w1 where s1:
    "(if os_path_exists p w then shutil_rmtree p w else (Inr (), w)) = (r1, w1)"
    by (cases "if os_path_exists p w then shutil_rmtree p w else (Inr (), w)")
  have f1: "request_status_logs w1 = request_status_logs w \<and> log_id_seq w1 = log_id_seq w \<and>
         request_resources w1 = request_resources w \<and> resource_id_seq w1 = resource_id_seq w \<and>
         redis w1 = redis w \<and> utcnow w1 = utcnow w \<and> invoked w1 = invoked w \<and>
         db_faults w1 = db_faults w \<and> redis_faults w1 = redis_faults w \<and>
         processes w1 = processes w"
  proof (cases "os_path_exists p w")
    case True
    then show ?thesis using s1 shutil_rmtree_frame [of p w r1 w1] by simp
  next
    case False
    then show ?thesis using s1 by simp
  qed
  obtain r2 w2 where s2: "os_makedirs p w1 = (r2, w2)" by (cases "os_makedirs p w1")
  note f2 = os_makedirs_frame [OF s2]
  show ?thesis
  proof (cases r1)
    case (Inl e)
    then have "w' = w1" using assms s1 by (simp add: generate_root_terraform_files_def)
    then show ?thesis using f1 by simp
  next
    case r1: (Inr u1)
    show ?thesis
    proof (cases r2)
      case (Inl e)
      then have "w' = w2" using assms s1 s2 r1 by (simp add: generate_root_terraform_files_def)
      then show ?thesis using f1 f2 by simp
    next
      case (Inr u2)
      then have "write_files p
              [(''main.tf'', main_tf device_id instance_name),
               (''variables.tf'', variables_tf),
               (''outputs.tf'', outputs_tf),
               (''provider.tf'', provider_tf cfg device_id)] w2 = (r, w')"
        using assms s1 s2 r1 by (simp add: generate_root_terraform_files_def)
      from write_files_frame [OF this] show ?thesis using f1 f2 by simp
    qed
  qed
qed

lemma run_cmd_frame:
  assumes "run_cmd cmd dir w = (r, w')"
  shows "request_status_logs w' = request_status_logs w \<and> log_id_seq w' = log_id_seq w \<and>
         request_resources w' = request_resources w \<and> resource_id_seq w' = resource_id_seq w \<and>
         redis w' = redis w \<and> files w' = files w \<and>
         db_faults w' = db_faults w \<and> redis_faults w' = redis_faults w \<and>
         fs_faults w' = fs_faults w"
  using assms
  by (auto simp: run_cmd_def Let_def split: list.splits proc_outcome.splits)

lemma run_terraform_commands_frame:
  assumes "run_terraform_commands p device_id instance_name w = (r, w')"
  shows "request_status_logs w' = request_status_logs w \<and> log_id_seq w' = log_id_seq w \<and>
         request_resources w' = request_resources w \<and> resource_id_seq w' = resource_id_seq w \<and>
         redis w' = redis w \<and> files w' = files w \<and>
         db_faults w' = db_faults w \<and> redis_faults w' = redis_faults w \<and>
         fs_faults w' = fs_faults w"
proof -
  obtain r1 w1 where s1: "run_cmd terraform_init p w = (r1, w1)"
    by (cases "run_cmd terraform_init p w")
  obtain r2 w2 where s2: "run_cmd (terraform_apply device_id instance_name) p w1 = (r2, w2)"
    by (cases "run_cmd (terraform_apply device_id instance_name) p w1")
  obtain r3 w3 where s3: "run_cmd terraform_output p w2 = (r3, w3)"
    by (cases "run_cmd terraform_output p w2")
  have "w' = w1 \<or> w' = w2 \<or> w' = w3"
    using assms s1 s2 s3
    by (auto simp: run_terraform_commands_def Let_def split: sum.splits prod.splits if_splits)
  then show ?thesis
    using run_cmd_frame [OF s1] run_cmd_frame [OF s2] run_cmd_frame [OF s3] by auto
qed

lemma destroy_terraform_resources_frame:
  assumes "destroy_terraform_resources p device_id instance_name w = (r, w')"
  shows "request_status_logs w' = request_status_logs w \<and> log_id_seq w' = log_id_seq w \<and>
         request_resources w' = request_resources w \<and> resource_id_seq w' = resource_id_seq w \<and>
         redis w' = redis w \<and> files w' = files w \<and>
         db_faults w' = db_faults w \<and> redis_faults w' = redis_faults w \<and>
         fs_faults w' = fs_faults w"
proof -
  obtain r1 w1 where s1: "run_cmd (terraform_destroy device_id instance_name) p w = (r1, w1)"
    by (cases "run_cmd (terraform_destroy device_id instance_name) p w")
  have "w' = w1"
    using assms s1
    by (auto simp: destroy_terraform_resources_def Let_def split: sum.splits prod.splits)
  then show ?thesis using run_cmd_frame [OF s1] by simp
qed

lemma log_resource_cases:
  assumes "log_resource key rtype rname rvalue w = (r, w')"
  shows "(\<exists>e rest. db_faults w = Some e # rest \<and> r = Inl e \<and>
            request_resources w' = request_resources w) \<or>
         ((\<forall>e rest. db_faults w \<noteq> Some e # rest) \<and> r = Inr () \<and>
            request_resources w' = request_resources w @
              [\<lparr>resource_id = Suc (resource_id_seq w), resource_log_id = key,
                resource_type = rtype, resource_name = rname, resource_id_value = rvalue,
                resource_created_at = utcnow w\<rparr>])"
  using assms by (auto simp: log_resource_def split: list.splits option.splits)

lemma log_request_row:
  assumes "log_request rid uid st dur err created w = (Inr k, w')"
  shows "\<exists>r \<in> set (request_status_logs w'). request_id r = rid \<and> log_id r = k \<and>
           status r = st \<and> duration_seconds r = dur \<and> error_message r = err"
proof (cases "find (\<lambda>r. request_id r = rid) (request_status_logs w)")
  case None
  then have "\<forall>r \<in> set (request_status_logs w). request_id r \<noteq> rid"
    by (simp add: find_None_iff)
  from log_request_insert [OF this assms] show ?thesis by simp
next
  case (Some r0)
  then have mem: "r0 \<in> set (request_status_logs w)" and rid: "request_id r0 = rid"
    by (auto simp: find_Some_iff in_set_conv_nth)
  show ?thesis
  proof (cases "log_id r0 = 0")
    case True
    then show ?thesis
      using assms Some
      by (auto simp: log_request_def Let_def scalar_filter insert_log_def
          split: list.splits option.splits)
  next
    case False
    from log_request_update [OF Some False assms]
    have k: "k = log_id r0"
      and rows: "request_status_logs w' =
        map (update_log (log_id r0) st dur err (utcnow w)) (request_status_logs w)"
      by simp_all
    have "update_log (log_id r0) st dur err (utcnow w) r0 \<in> set (request_status_logs w')"
      using mem by (simp add: rows)
    then show ?thesis
      using rid k by (intro bexI [of _ "update_log (log_id r0) st dur err (utcnow w) r0"])
        (simp_all add: update_log_def)
  qed
qed


subsection \<open>Resource records\<close>

lemma no_db_fault_2:
  "no_db_fault 2 w \<longleftrightarrow>
     (\<forall>e rest. db_faults w \<noteq> Some e # rest) \<and> (\<forall>e rest. tl (db_faults w) \<noteq> Some e # rest)"
proof (cases "db_faults w")
  case Nil
  then show ?thesis by (simp add: no_db_fault_def)
next
  case (Cons x xs)
  then show ?thesis
    by (cases xs; cases x) (auto simp: no_db_fault_def numeral_2_eq_2)
qed

lemma create_steps_resources:
  "request_resources (snd (create_steps cfg rid key p d n u w)) =
     (case generate_root_terraform_files cfg d n p w of
        (Inl e, w1) \<Rightarrow> request_resources w
      | (Inr _, w1) \<Rightarrow>
          (case run_terraform_commands p d n w1 of
             (Inl e, w2) \<Rightarrow> request_resources w
           | (Inr (ok, out, dur), w2) \<Rightarrow>
               if ok \<and> no_db_fault 2 w2
               then request_resources w @
                 [\<lparr>resource_id = Suc (resource_id_seq w), resource_log_id = key,
                   resource_type = ''EC2'', resource_name = n, resource_id_value = d,
                   resource_created_at = utcnow w2\<rparr>]
               else request_resources w))"
proof -
  obtain rb w1 where b: "generate_root_terraform_files cfg d n p w = (rb, w1)"
    by (cases "generate_root_terraform_files cfg d n p w")
  note fb = generate_root_terraform_files_frame [OF b]
  show ?thesis
  proof (cases rb)
    case (Inl e)
    then show ?thesis using b fb by (simp add: create_steps_def)
  next
    case rb: (Inr ub)
    obtain rp w2 where p: "run_terraform_commands p d n w1 = (rp, w2)"
      by (cases "run_terraform_commands p d n w1")
    note fp = run_terraform_commands_frame [OF p]
    show ?thesis
    proof (cases rp)
      case (Inl e)
      then show ?thesis using b rb p fb fp by (simp add: create_steps_def)
    next
      case rp: (Inr res)
      obtain ok out dur where res: "res = (ok, out, dur)" by (cases res)
      obtain rl w3 where l:
        "log_request rid u (if ok then ''success'' else ''failed'') (Some dur)
           (if ok then None else Some out) None w2 = (rl, w3)"
        by (cases "log_request rid u (if ok then ''success'' else ''failed'') (Some dur)
           (if ok then None else Some out) None w2")
      note fl = log_request_frame [OF l]
      show ?thesis
      proof (cases rl)
        case (Inl e)
        then obtain rest where "db_faults w2 = Some e # rest"
          using log_request_raises l by blast
        then have "\<not> no_db_fault 2 w2" by (simp add: no_db_fault_2)
        then show ?thesis
          using b rb p rp res l Inl fb fp fl by (simp add: create_steps_def)
      next
        case rl: (Inr k)
        from log_request_returns [OF l [unfolded rl]]
        have head: "\<forall>e rest. db_faults w2 \<noteq> Some e # rest"
          and tail: "db_faults w3 = tl (db_faults w2)" by simp_all
        show ?thesis
        proof (cases ok)
          case False
          then show ?thesis
            using b rb p rp res l rl fb fp fl by (simp add: create_steps_def)
        next
          case True
          obtain rr w4 where r: "log_resource key ''EC2'' n d w3 = (rr, w4)"
            by (cases "log_resource key ''EC2'' n d w3")
          from log_resource_cases [OF r] show ?thesis
          proof
            assume "\<exists>e rest. db_faults w3 = Some e # rest \<and> rr = Inl e \<and>
                      request_resources w4 = request_resources w3"
            then obtain e rest where f: "db_faults w3 = Some e # rest" "rr = Inl e"
              "request_resources w4 = request_resources w3" by blast
            then have "\<not> no_db_fault 2 w2" using tail by (simp add: no_db_fault_2)
            then show ?thesis
              using b rb p rp res l rl True r f fb fp fl by (simp add: create_steps_def)
          next
            assume a: "(\<forall>e rest. db_faults w3 \<noteq> Some e # rest) \<and> rr = Inr () \<and>
              request_resources w4 = request_resources w3 @
                [\<lparr>resource_id = Suc (resource_id_seq w3), resource_log_id = key,
                  resource_type = ''EC2'', resource_name = n, resource_id_value = d,
                  resource_created_at = utcnow w3\<rparr>]"
            then have "no_db_fault 2 w2" using head tail by (simp add: no_db_fault_2)
            then show ?thesis
              using b rb p rp res l rl True r a fb fp fl by (simp add: create_steps_def)
          qed
        qed
      qed
    qed
  qed
qed

lemma handler_keeps_resources:
  "request_resources
     (snd (case log_request rid u st dur err created w of
             (Inl e', w3) \<Rightarrow> (Inl e', w3)
           | (Inr k, w3) \<Rightarrow> (Inr res, w3))) = request_resources w"
proof -
  obtain r w3 where l: "log_request rid u st dur err created w = (r, w3)"
    by (cases "log_request rid u st dur err created w")
  then show ?thesis using log_request_frame [OF l] by (cases r) simp_all
qed

lemma destroy_steps_resources:
  "request_resources (snd (destroy_steps rid p d n u w)) = request_resources w"
proof -
  obtain rp w1 where p: "destroy_terraform_resources p d n w = (rp, w1)"
    by (cases "destroy_terraform_resources p d n w")
  note fp = destroy_terraform_resources_frame [OF p]
  show ?thesis
  proof (cases rp)
    case (Inl e)
    then show ?thesis using p fp by (simp add: destroy_steps_def)
  next
    case (Inr res)
    obtain ok out dur where res: "res = (ok, out, dur)" by (cases res)
    show ?thesis
      using p Inr res fp by (simp add: destroy_steps_def handler_keeps_resources)
  qed
qed

text \<open>
  C2, amended. The destroy flow never changes the table of resources. The create flow
  appends one row (type \<^verbatim>\<open>EC2\<close>, name the instance name, value the device id, parent the
  key of the status row) exactly when \<^verbatim>\<open>run_terraform_commands\<close> has reported success and
  neither the status write that follows nor the insert itself raises; in every other
  run it leaves the table as it was.
\<close>

theorem resource_record_iff_success:
  "request_resources (snd (destroy_server_job secret cfg d n u w)) = request_resources w \<and>
   request_resources (snd (create_server_job secret cfg d n u w)) =
     (case create_pipeline_report secret cfg d n u w of
        None \<Rightarrow> request_resources w
      | Some (ok, key, w3) \<Rightarrow>
          if ok \<and> no_db_fault 2 w3
          then request_resources w @
            [\<lparr>resource_id = Suc (resource_id_seq w), resource_log_id = key,
              resource_type = ''EC2'', resource_name = n, resource_id_value = d,
              resource_created_at = utcnow w3\<rparr>]
          else request_resources w)"
proof
  let ?rid = "normalize_request_id secret d"
  let ?p = "os_path_join (TERRAFORM_ROOT cfg) d"
  show "request_resources (snd (destroy_server_job secret cfg d n u w)) = request_resources w"
  proof -
    obtain r1 w1 where s: "log_request ?rid u ''destroy_started'' None None None w = (r1, w1)"
      by (cases "log_request ?rid u ''destroy_started'' None None None w")
    note f1 = log_request_frame [OF s]
    show ?thesis
    proof (cases r1)
      case (Inl e)
      then show ?thesis using s f1 by (simp add: destroy_server_job_def Let_def)
    next
      case (Inr k)
      obtain r2 w2 where t: "destroy_steps ?rid ?p d n u w1 = (r2, w2)"
        by (cases "destroy_steps ?rid ?p d n u w1")
      have f2: "request_resources w2 = request_resources w1"
        using destroy_steps_resources [of ?rid ?p d n u w1] t by simp
      show ?thesis
      proof (cases r2)
        case (Inl e)
        show ?thesis
          using s Inr t Inl f1 f2
          by (simp add: destroy_server_job_def Let_def handler_keeps_resources)
      next
        case r2: (Inr res)
        then show ?thesis
          using s Inr t f1 f2 by (simp add: destroy_server_job_def Let_def)
      qed
    qed
  qed
  show "request_resources (snd (create_server_job secret cfg d n u w)) =
     (case create_pipeline_report secret cfg d n u w of
        None \<Rightarrow> request_resources w
      | Some (ok, key, w3) \<Rightarrow>
          if ok \<and> no_db_fault 2 w3
          then request_resources w @
            [\<lparr>resource_id = Suc (resource_id_seq w), resource_log_id = key,
              resource_type = ''EC2'', resource_name = n, resource_id_value = d,
              resource_created_at = utcnow w3\<rparr>]
          else request_resources w)"
  proof -
    obtain r1 w1 where s: "log_request ?rid u ''create_started'' None None None w = (r1, w1)"
      by (cases "log_request ?rid u ''create_started'' None None None w")
    note f1 = log_request_frame [OF s]
    show ?thesis
    proof (cases r1)
      case (Inl e)
      then show ?thesis
        using s f1 by (simp add: create_server_job_def create_pipeline_report_def Let_def)
    next
      case (Inr key)
      obtain r2 w2 where t: "create_steps cfg ?rid key ?p d n u w1 = (r2, w2)"
        by (cases "create_steps cfg ?rid key ?p d n u w1")
      have final: "request_resources (snd (create_server_job secret cfg d n u w)) =
                     request_resources w2"
      proof (cases r2)
        case (Inl e)
        show ?thesis
          using s Inr t Inl
          by (simp add: create_server_job_def Let_def handler_keeps_resources)
      next
        case r2: (Inr res)
        then show ?thesis
          using s Inr t by (simp add: create_server_job_def Let_def)
      qed
      have steps: "request_resources w2 =
        (case generate_root_terraform_files cfg d n ?p w1 of
           (Inl e, w1') \<Rightarrow> request_resources w1
         | (Inr _, w1') \<Rightarrow>
             (case run_terraform_commands ?p d n w1' of
                (Inl e, w2') \<Rightarrow> request_resources w1
              | (Inr (ok, out, dur), w2') \<Rightarrow>
                  if ok \<and> no_db_fault 2 w2'
                  then request_resources w1 @
                    [\<lparr>resource_id = Suc (resource_id_seq w1), resource_log_id = key,
                      resource_type = ''EC2'', resource_name = n, resource_id_value = d,
                      resource_created_at = utcnow w2'\<rparr>]
                  else request_resources w1))"
        using create_steps_resources [of cfg ?rid key ?p d n u w1] t by simp
      show ?thesis
        unfolding final steps
        using s Inr f1
        by (simp add: create_pipeline_report_def Let_def split: prod.splits sum.splits)
    qed
  qed
qed

lemmas flow_defs =
  create_server_job_def create_steps_def destroy_server_job_def destroy_steps_def
  create_pipeline_report_def log_request_def log_resource_def insert_log_def update_log_def
  scalar_def cache_job_status_def generate_root_terraform_files_def os_path_exists_def
  has_nul_def step_def rstrip_sep_def start_of_def path_lookup_def os_path_isdir_def
  os_mkdir_def os_rmdir_def shutil_rmtree_def os_path_split_def makedirs_split_def
  mkdir_exist_ok_def makedirs_last_def is_FileExistsError_def os_makedirs.simps write_file_def
  fs_fault_def os_path_join_def
  run_terraform_commands_def destroy_terraform_resources_def run_cmd_def
  terraform_init_def terraform_apply_def terraform_output_def terraform_destroy_def
  normalize_request_id_def py_int_42 str_int_def str_nat.simps digit_char_def Let_def
  no_db_fault_def sample_settings_def

lemmas world_defs =
  fresh_world_def happy_world_def db_blip_world_def db_lost_world_def build_fails_world_def

theorem resource_record_iff_success_witness:
  "map_option (\<lambda>(ok, key, w3). (ok, key, utcnow w3, no_db_fault 2 w3))
     (create_pipeline_report seed0 sample_settings ''42'' ''web1'' ''alice'' happy_world) =
     Some (True, 1, 133, True) \<and>
   request_resources (snd (create_server_job seed0 sample_settings ''42'' ''web1'' ''alice''
     happy_world)) =
     [\<lparr>resource_id = 1, resource_log_id = 1, resource_type = ''EC2'',
       resource_name = ''web1'', resource_id_value = ''42'', resource_created_at = 133\<rparr>] \<and>
   request_resources (snd (destroy_server_job seed0 sample_settings ''42'' ''web1'' ''alice''
     happy_world)) = []"
proof -
  have report: "map_option (\<lambda>(ok, key, w3). (ok, key, utcnow w3, no_db_fault 2 w3))
     (create_pipeline_report seed0 sample_settings ''42'' ''web1'' ''alice'' happy_world) =
     Some (True, 1, 133, True)"
    by (simp add: flow_defs world_defs)
  have base: "request_resources happy_world = []" "resource_id_seq happy_world = 0"
    by (simp_all add: world_defs)
  show ?thesis
    using report base
      resource_record_iff_success [of seed0 sample_settings "''42''" "''web1''" "''alice''"
        happy_world]
    by (cases "create_pipeline_report seed0 sample_settings ''42'' ''web1'' ''alice''
          happy_world") auto
qed

text \<open>
  C2, as stated, fails: on \<open>db_blip_world\<close> the pipeline reports success, the status
  write that follows raises, and the flow returns without a resource row.
\<close>

theorem resource_record_counterexample:
  "map_option fst
     (create_pipeline_report seed0 sample_settings ''42'' ''web1'' ''alice'' db_blip_world) =
     Some True \<and>
   request_resources (snd (create_server_job seed0 sample_settings ''42'' ''web1'' ''alice''
     db_blip_world)) = [] \<and>
   fst (create_server_job seed0 sample_settings ''42'' ''web1'' ''alice'' db_blip_world) =
     Inr \<lparr>success = False, output = ''Unhandled error: connection lost'', duration = 0\<rparr>"
  by (simp add: flow_defs world_defs)

subsection \<open>The crash path of the create flow\<close>

text \<open>
  The four places of the \<^verbatim>\<open>try\<close> block that can raise: the workspace build, the pipeline,
  the status write after it and the insert of the resource row. Each makes the block
  raise the same exception.
\<close>

lemma create_steps_raises:
  "generate_root_terraform_files cfg d n p w = (Inl e, w1) \<Longrightarrow>
     create_steps cfg rid key p d n u w = (Inl e, w1)"
  "generate_root_terraform_files cfg d n p w = (Inr x, w1) \<Longrightarrow>
   run_terraform_commands p d n w1 = (Inl e, w2) \<Longrightarrow>
     create_steps cfg rid key p d n u w = (Inl e, w2)"
  "generate_root_terraform_files cfg d n p w = (Inr x, w1) \<Longrightarrow>
   run_terraform_commands p d n w1 = (Inr (ok, out, dur), w2) \<Longrightarrow>
   log_request rid u (if ok then ''success'' else ''failed'') (Some dur)
     (if ok then None else Some out) None w2 = (Inl e, w3) \<Longrightarrow>
     create_steps cfg rid key p d n u w = (Inl e, w3)"
  "generate_root_terraform_files cfg d n p w = (Inr x, w1) \<Longrightarrow>
   run_terraform_commands p d n w1 = (Inr (True, out, dur), w2) \<Longrightarrow>
   log_request rid u ''success'' (Some dur) None None w2 = (Inr k, w3) \<Longrightarrow>
   log_resource key ''EC2'' n d w3 = (Inl e, w4) \<Longrightarrow>
     create_steps cfg rid key p d n u w = (Inl e, w4)"
  by (simp_all add: create_steps_def)

text \<open>
  When the write of status \<^verbatim>\<open>error\<close> in the handler raises, nothing catches it: the flow
  raises that exception to its caller.
\<close>

lemma create_handler_write_raises:
  assumes "log_request (normalize_request_id secret d) u ''create_started'' None None None w =
             (Inr key, w1)"
    and "create_steps cfg (normalize_request_id secret d) key
           (os_path_join (TERRAFORM_ROOT cfg) d) d n u w1 = (Inl e, w2)"
    and "log_request (normalize_request_id secret d) u ''error'' None
           (Some (''Unhandled error: '' @ str_exn e)) None w2 = (Inl e', w3)"
  shows "create_server_job secret cfg d n u w = (Inl e', w3)"
  using assms by (simp add: create_server_job_def Let_def)

text \<open>
  C3, as stated, fails: on \<open>db_lost_world\<close> the status write after the pipeline raises,
  the write of status \<^verbatim>\<open>error\<close> in the handler raises as well, and the flow raises to its
  caller instead of returning a result; the last status recorded is \<^verbatim>\<open>create_started\<close>.
\<close>

theorem create_crash_counterexample:
  "fst (create_server_job seed0 sample_settings ''42'' ''web1'' ''alice'' db_lost_world) =
     Inl (Exception ''connection lost'') \<and>
   map status (request_status_logs
     (snd (create_server_job seed0 sample_settings ''42'' ''web1'' ''alice'' db_lost_world))) =
     [''create_started'']"
  by (simp add: flow_defs world_defs)

text \<open>
  C3, amended. When the \<^verbatim>\<open>try\<close> block of the create flow raises and the write of status
  \<^verbatim>\<open>error\<close> in the handler goes through, the flow returns success \<^verbatim>\<open>False\<close>, the output
  \<^verbatim>\<open>Unhandled error: \<close> followed by the message of the exception, and duration 0,
  and the status row of the request holds \<^verbatim>\<open>error\<close>, that text and no duration.
\<close>

theorem create_crash_reported:
  assumes "log_request (normalize_request_id secret d) u ''create_started'' None None None w =
             (Inr key, w1)"
    and "create_steps cfg (normalize_request_id secret d) key
           (os_path_join (TERRAFORM_ROOT cfg) d) d n u w1 = (Inl e, w2)"
    and "log_request (normalize_request_id secret d) u ''error'' None
           (Some (''Unhandled error: '' @ str_exn e)) None w2 = (Inr key', w3)"
  shows "create_server_job secret cfg d n u w =
           (Inr \<lparr>success = False, output = ''Unhandled error: '' @ str_exn e, duration = 0\<rparr>,
            w3) \<and>
         (\<exists>r \<in> set (request_status_logs w3).
            request_id r = normalize_request_id secret d \<and> status r = ''error'' \<and>
            error_message r = Some (''Unhandled error: '' @ str_exn e) \<and>
            duration_seconds r = None)"
proof -
  have "create_server_job secret cfg d n u w =
           (Inr \<lparr>success = False, output = ''Unhandled error: '' @ str_exn e, duration = 0\<rparr>,
            w3)"
    using assms by (simp add: create_server_job_def Let_def)
  moreover have "\<exists>r \<in> set (request_status_logs w3).
            request_id r = normalize_request_id secret d \<and> status r = ''error'' \<and>
            error_message r = Some (''Unhandled error: '' @ str_exn e) \<and>
            duration_seconds r = None"
    using log_request_row [OF assms(3)] by blast
  ultimately show ?thesis by simp
qed

theorem create_crash_reported_witness:
  "fst (log_request (normalize_request_id seed0 ''42'') ''alice'' ''create_started''
         None None None build_fails_world) = Inr 1 \<and>
   fst (create_steps sample_settings (normalize_request_id seed0 ''42'') 1
         (os_path_join (TERRAFORM_ROOT sample_settings) ''42'') ''42'' ''web1'' ''alice''
         (snd (log_request (normalize_request_id seed0 ''42'') ''alice'' ''create_started''
            None None None build_fails_world))) =
     Inl (Exception ''[Errno 28] No space left on device'') \<and>
   fst (create_server_job seed0 sample_settings ''42'' ''web1'' ''alice'' build_fails_world) =
     Inr \<lparr>success = False,
          output = ''Unhandled error: [Errno 28] No space left on device'', duration = 0\<rparr> \<and>
   map (\<lambda>r. (status r, duration_seconds r, error_message r))
     (request_status_logs
        (snd (create_server_job seed0 sample_settings ''42'' ''web1'' ''alice''
           build_fails_world))) =
     [(''error'', None, Some ''Unhandled error: [Errno 28] No space left on device'')]"
proof -
  let ?rid = "normalize_request_id seed0 ''42''"
  let ?c1 = "log_request ?rid ''alice'' ''create_started'' None None None build_fails_world"
  let ?c2 = "create_steps sample_settings ?rid 1
               (os_path_join (TERRAFORM_ROOT sample_settings) ''42'') ''42'' ''web1'' ''alice''
               (snd ?c1)"
  let ?e = "Exception ''[Errno 28] No space left on device''"
  let ?c3 = "log_request ?rid ''alice'' ''error'' None
               (Some (''Unhandled error: '' @ str_exn ?e)) None (snd ?c2)"
  have f1: "fst ?c1 = Inr 1" by (simp add: flow_defs world_defs)
  have f2: "fst ?c2 = Inl ?e" by (simp add: flow_defs world_defs)
  have f3: "fst ?c3 = Inr 1" by (simp add: flow_defs world_defs)
  have rows: "map (\<lambda>r. (status r, duration_seconds r, error_message r))
                (request_status_logs (snd ?c3)) =
              [(''error'', None, Some ''Unhandled error: [Errno 28] No space left on device'')]"
    by (simp add: flow_defs world_defs)
  have h1: "?c1 = (Inr 1, snd ?c1)" using f1 by (metis prod.collapse)
  have h2: "?c2 = (Inl ?e, snd ?c2)" using f2 by (metis prod.collapse)
  have h3: "?c3 = (Inr 1, snd ?c3)" using f3 by (metis prod.collapse)
  show ?thesis
    using f1 f2 rows create_crash_reported [OF h1 h2 h3] by simp
qed


end
